theory Spec2Isabelle
  imports Main "HOL-Library.Sublist"
begin

section \<open>Data model of \<^verbatim>\<open>bot.py\<close>\<close>

text \<open>
  The program is a chat bot over one SQLite database and one in-memory dictionary.
  A Python \<^verbatim>\<open>str\<close> is modelled as a \<^typ>\<open>string\<close>, one \<^typ>\<open>char\<close> per character;
  slicing \<^verbatim>\<open>s[:n]\<close> is \<^term>\<open>take n s\<close>. A timestamp is the text SQLite stores for
  \<^verbatim>\<open>CURRENT_TIMESTAMP\<close>, \<^verbatim>\<open>YYYY-MM-DD HH:MM:SS\<close>, and SQL's \<^verbatim>\<open>DATE(ts)\<close> is its
  first ten characters.
\<close>

type_synonym timestamp = string

definition DATE :: "timestamp \<Rightarrow> string" where
  "DATE ts = take 10 ts"

text \<open>The four tables of \<^verbatim>\<open>init_database\<close> that the handlers use, one record per row.\<close>

record user_row =
  user_id :: int
  username :: string
  role :: string
  skills :: string
  location :: string
  is_banned :: int
  created :: timestamp

record job_row =
  job_id :: nat
  client_id :: int
  title :: string
  description :: string
  budget :: string
  status :: string
  job_created :: timestamp

record activity_row =
  activity_id :: nat
  actor :: int
  action :: string
  details :: string
  logged_at :: timestamp

record metric_row =
  date :: string
  new_users :: nat
  new_jobs :: nat
  active_users :: nat


text \<open>The exceptions the handlers can meet.\<close>

datatype exn =
    KeyError string
  | IndexError
  | ValueError string
  | OverflowError
  | ApiException

text \<open>
  What the bot sends. Every constructor stands for one message template of the source and
  carries the values the template interpolates; the wording and markup of the templates
  are not modelled. The constructors of the admin reports (dashboard, users, all jobs,
  daily report, analytics) carry nothing: they stand for the text that the handler
  renders from the rows it reads.
\<close>

datatype text_msg =
    AdminModeActivated
  | Welcome
  | AskSkills
  | AskLocation
  | ProfileComplete
  | AskJobTitle
  | AskJobDescription
  | AskBudget
  | JobPosted string string nat
  | NewJobAvailable string string
  | JobsListing "job_row list"
  | ProfileNotFound
  | YourProfile user_row
  | HelpText
  | TelegramInfo int string
  | AdminNote int
  | AdminAccessRequired
  | DashboardReport
  | UsersReport
  | AllJobsReport
  | ViewUserUsage
  | InvalidUserId
  | UserNotFound int
  | UserDetails user_row
  | BanResult string int string
  | ErrorText exn
  | DailyReport
  | AnalyticsReport
  | BroadcastUsage
  | BroadcastConfirmation string string
  | BroadcastCancelled
  | SendingBroadcast
  | Announcement string
  | BroadcastComplete nat nat nat string
  | UnknownCommand

text \<open>
  \<^verbatim>\<open>bot.send_message(chat_id, text)\<close> and
  \<^verbatim>\<open>bot.edit_message_text(text, chat_id, message_id)\<close>.
\<close>

datatype outgoing =
    Send int text_msg
  | Edit int int text_msg

text \<open>
  The state of the program: the tables, the \<^verbatim>\<open>sqlite_sequence\<close> counters of the two
  \<^verbatim>\<open>AUTOINCREMENT\<close> keys, the global dictionary \<^verbatim>\<open>user_state\<close> (a dictionary of
  dictionaries), and the messages delivered so far.

  \<^verbatim>\<open>write_lock\<close> is the database file's write lock: a connection that has executed a
  write statement holds it until it commits, and a write through another connection
  fails with \<^verbatim>\<open>database is locked\<close> once its busy timeout is over. Every write of the
  program commits in the function that executes it, before any other access to the
  store, except the \<^verbatim>\<open>UPDATE\<close> of \<^verbatim>\<open>handle_ban_unban\<close>, which is committed after the
  call of \<^verbatim>\<open>log_activity\<close>.
\<close>

record world =
  users :: "user_row list"
  jobs :: "job_row list"
  jobs_seq :: nat
  user_activity :: "activity_row list"
  activity_seq :: nat
  daily_metrics :: "metric_row list"
  write_lock :: bool
  user_state :: "int \<rightharpoonup> (string \<rightharpoonup> string)"
  sent :: "outgoing list"

text \<open>
  What a handler reads from outside the program: the configured \<^verbatim>\<open>ADMIN_ID\<close> (after the
  conversion at module load: an integer or \<^verbatim>\<open>None\<close>), the store's \<^verbatim>\<open>CURRENT_TIMESTAMP\<close>,
  whether the transport accepts a delivery, and whether the store accepts an insert into \<^verbatim>\<open>user_activity\<close>.
\<close>

record env =
  ADMIN_ID :: "int option"
  now :: timestamp
  deliver_ok :: "outgoing \<Rightarrow> bool"
  insert_ok :: "int \<Rightarrow> string \<Rightarrow> bool"

text \<open>An incoming text message and an incoming callback query.\<close>

record message =
  from_id :: int
  from_username :: "string option"
  chat_id :: int
  msg_text :: string

record callback =
  cb_from_id :: int
  cb_data :: string
  cb_chat_id :: int
  cb_message_id :: int

text \<open>
  How a handler ends: it returns, or an exception leaves it. The world is the one reached
  at that point, since the effects made before an exception stay.
\<close>

datatype outcome =
    Returned world
  | Raised exn world

fun world_of :: "outcome \<Rightarrow> world" where
  "world_of (Returned w) = w"
| "world_of (Raised e w) = w"

section \<open>Strings\<close>

text \<open>\<^verbatim>\<open>str(n)\<close> of an integer, as the f-strings render it.\<close>

fun str_nat :: "nat \<Rightarrow> string" where
  "str_nat n =
     (if n < 10 then [''0123456789'' ! n]
      else str_nat (n div 10) @ [''0123456789'' ! (n mod 10)])"

declare str_nat.simps [simp del]

definition str_int :: "int \<Rightarrow> string" where
  "str_int i = (if i < 0 then CHR ''-'' # str_nat (nat (- i)) else str_nat (nat i))"

text \<open>\<^verbatim>\<open>p in s\<close> on strings: \<open>p\<close> occurs in \<open>s\<close> as a contiguous run.\<close>

fun contains :: "string \<Rightarrow> string \<Rightarrow> bool" where
  "contains p [] = (p = [])"
| "contains p (c # cs) = (prefix p (c # cs) \<or> contains p cs)"

text \<open>
  The whitespace of \<^verbatim>\<open>str.split()\<close> and \<^verbatim>\<open>int()\<close>: the characters that Python counts as
  whitespace, as far as they lie in the range of \<^typ>\<open>char\<close> (tab to carriage return, the
  four separators \<open>0x1C\<close> to \<open>0x1F\<close>, the space, \<open>0x85\<close> and \<open>0xA0\<close>).
\<close>

definition is_space :: "char \<Rightarrow> bool" where
  "is_space c =
     (c \<in> set [CHR 0x09, CHR 0x0A, CHR 0x0B, CHR 0x0C, CHR 0x0D, CHR 0x1C, CHR 0x1D,
               CHR 0x1E, CHR 0x1F, CHR '' '', CHR 0x85, CHR 0xA0])"

text \<open>\<^verbatim>\<open>s.split()\<close>: the maximal runs of characters that are not whitespace.\<close>

fun split_ws_from :: "string \<Rightarrow> string \<Rightarrow> string list" where
  "split_ws_from cur [] = (if cur = [] then [] else [cur])"
| "split_ws_from cur (c # cs) =
     (if is_space c then (if cur = [] then split_ws_from [] cs else cur # split_ws_from [] cs)
      else split_ws_from (cur @ [c]) cs)"

definition split_ws :: "string \<Rightarrow> string list" where
  "split_ws s = split_ws_from [] s"

text \<open>\<^verbatim>\<open>s.split(sep)\<close> for a one-character separator: empty pieces are kept.\<close>

fun split_sep_from :: "char \<Rightarrow> string \<Rightarrow> string \<Rightarrow> string list" where
  "split_sep_from sep cur [] = [cur]"
| "split_sep_from sep cur (c # cs) =
     (if c = sep then cur # split_sep_from sep [] cs else split_sep_from sep (cur @ [c]) cs)"

definition split_sep :: "char \<Rightarrow> string \<Rightarrow> string list" where
  "split_sep sep s = split_sep_from sep [] s"

text \<open>\<^verbatim>\<open>s.split(sep, 1)\<close>: one cut, at the first separator.\<close>

definition split1 :: "char \<Rightarrow> string \<Rightarrow> string list" where
  "split1 sep s =
     (if sep \<in> set s then [takeWhile (\<lambda>c. c \<noteq> sep) s, tl (dropWhile (\<lambda>c. c \<noteq> sep) s)]
      else [s])"

text \<open>\<^verbatim>\<open>xs[i]\<close> for \<open>i \<ge> 0\<close>: out of range raises \<^verbatim>\<open>IndexError\<close>.\<close>

definition item :: "'a list \<Rightarrow> nat \<Rightarrow> exn + 'a" where
  "item xs i = (if i < length xs then Inr (xs ! i) else Inl IndexError)"

text \<open>
  \<^verbatim>\<open>int(s)\<close> on a string: surrounding whitespace is dropped, then an optional sign and
  decimal digits, where single underscores may stand between digits. Anything else raises
  \<^verbatim>\<open>ValueError\<close>. (Decimal digits of other scripts, which Python also accepts, are not
  modelled.)
\<close>

definition is_digit :: "char \<Rightarrow> bool" where
  "is_digit c = (c \<in> set ''0123456789'')"

definition strip :: "string \<Rightarrow> string" where
  "strip s = rev (dropWhile is_space (rev (dropWhile is_space s)))"

fun digits_ok :: "string \<Rightarrow> bool" where
  "digits_ok [] = False"
| "digits_ok [c] = is_digit c"
| "digits_ok (c # d # cs) =
     (is_digit c \<and> (if d = CHR ''_'' then digits_ok cs else digits_ok (d # cs)))"

definition digits_val :: "string \<Rightarrow> nat" where
  "digits_val s =
     foldl (\<lambda>n c. 10 * n + (of_char c - 48)) 0 (filter (\<lambda>c. c \<noteq> CHR ''_'') s)"

definition py_int :: "string \<Rightarrow> exn + int" where
  "py_int s =
     (case strip s of
        [] \<Rightarrow> Inl (ValueError s)
      | c # cs \<Rightarrow>
          if c = CHR ''-'' then
            (if digits_ok cs then Inr (- int (digits_val cs)) else Inl (ValueError s))
          else if c = CHR ''+'' then
            (if digits_ok cs then Inr (int (digits_val cs)) else Inl (ValueError s))
          else if digits_ok (c # cs) then Inr (int (digits_val (c # cs)))
          else Inl (ValueError s))"

section \<open>The store\<close>

text \<open>
  \<^verbatim>\<open>log_activity\<close>: one \<^verbatim>\<open>INSERT\<close> into \<^verbatim>\<open>user_activity\<close> through a connection of its
  own. The whole body is inside \<^verbatim>\<open>try ... except Exception\<close>, which prints and returns: if
  the insert fails (the write lock is held by another connection, or the store refuses
  it), nothing is stored and nothing is raised.
\<close>

definition log_activity :: "env \<Rightarrow> int \<Rightarrow> string \<Rightarrow> string \<Rightarrow> world \<Rightarrow> world" where
  "log_activity env uid act det w =
     (if write_lock w then w
      else if \<not> insert_ok env uid act then w
      else w\<lparr>user_activity := user_activity w @
                 [\<lparr>activity_id = activity_seq w + 1, actor = uid, action = act,
                   details = det, logged_at = now env\<rparr>],
             activity_seq := activity_seq w + 1\<rparr>)"

text \<open>
  \<^verbatim>\<open>INSERT OR REPLACE INTO daily_metrics\<close>: \<^verbatim>\<open>date\<close> is the primary key, so the rows with
  the new row's date are deleted and the new row is inserted.
\<close>

definition replace_metric :: "metric_row \<Rightarrow> metric_row list \<Rightarrow> metric_row list" where
  "replace_metric r ms = filter (\<lambda>m. date m \<noteq> date r) ms @ [r]"

text \<open>
  \<^verbatim>\<open>update_daily_metrics\<close>. \<open>today\<close> is the value of
  \<^verbatim>\<open>datetime.now().strftime('%Y-%m-%d')\<close> that the run reads. The three counts are the
  \<^verbatim>\<open>SELECT COUNT\<close> queries; the body is inside \<^verbatim>\<open>try ... except Exception\<close>, so a run that
  cannot write (the write lock is held) changes nothing and raises nothing.
\<close>

definition update_daily_metrics :: "string \<Rightarrow> world \<Rightarrow> world" where
  "update_daily_metrics today w =
     (if write_lock w then w
      else
        let new_users' = length (filter (\<lambda>u. DATE (created u) = today) (users w));
            new_jobs' = length (filter (\<lambda>j. DATE (job_created j) = today) (jobs w));
            active_users' =
              length (remdups (map actor
                (filter (\<lambda>a. DATE (logged_at a) = today) (user_activity w))))
        in w\<lparr>daily_metrics :=
               replace_metric
                 \<lparr>date = today, new_users = new_users', new_jobs = new_jobs',
                  active_users = active_users'\<rparr>
                 (daily_metrics w)\<rparr>)"

text \<open>
  The runs of the aggregator, one after the other: the eager run of \<^verbatim>\<open>main\<close> and the runs
  that \<^verbatim>\<open>schedule_metrics_update\<close> starts at 23:59. Each run reads the date of its own
  moment; the list gives these dates in order.
\<close>

fun metrics_runs :: "string list \<Rightarrow> world \<Rightarrow> world" where
  "metrics_runs [] w = w"
| "metrics_runs (today # days) w = metrics_runs days (update_daily_metrics today w)"

text \<open>
  \<^verbatim>\<open>save_user\<close>: \<^verbatim>\<open>INSERT OR REPLACE INTO users (user_id, username, role)\<close>. The row with
  this primary key is deleted and a new row is inserted; the columns that the statement
  does not name take their defaults. \<^verbatim>\<open>user_id\<close> is the table's row id and a scan of the
  table visits the rows in its order, so the new row is put at its place in that order.
\<close>

definition save_user :: "env \<Rightarrow> int \<Rightarrow> string \<Rightarrow> string \<Rightarrow> world \<Rightarrow> world" where
  "save_user env uid username' role' w =
     w\<lparr>users :=
         insort_key user_id
           \<lparr>user_id = uid, username = username', role = role', skills = [],
            location = [], is_banned = 0, created = now env\<rparr>
           (filter (\<lambda>u. user_id u \<noteq> uid) (users w))\<rparr>"

text \<open>\<^verbatim>\<open>create_job\<close>: the new row takes the next \<^verbatim>\<open>AUTOINCREMENT\<close> id, which is returned.\<close>

definition create_job ::
  "env \<Rightarrow> int \<Rightarrow> string \<Rightarrow> string \<Rightarrow> string \<Rightarrow> world \<Rightarrow> nat \<times> world" where
  "create_job env client title' description' budget' w =
     (jobs_seq w + 1,
      w\<lparr>jobs := jobs w @
           [\<lparr>job_id = jobs_seq w + 1, client_id = client, title = title',
             description = description', budget = budget', status = ''open'',
             job_created = now env\<rparr>],
        jobs_seq := jobs_seq w + 1\<rparr>)"

definition get_jobs :: "world \<Rightarrow> job_row list" where
  "get_jobs w = take 10 (rev (sort_key job_id (filter (\<lambda>j. status j = ''open'') (jobs w))))"

definition get_freelancers :: "world \<Rightarrow> int list" where
  "get_freelancers w =
     map user_id (filter (\<lambda>u. role u = ''freelancer'' \<and> is_banned u = 0) (users w))"

text \<open>The three \<^verbatim>\<open>UPDATE users SET ... WHERE user_id=?\<close> statements.\<close>

definition update_skills :: "int \<Rightarrow> string \<Rightarrow> world \<Rightarrow> world" where
  "update_skills uid v w =
     w\<lparr>users := map (\<lambda>u. if user_id u = uid then u\<lparr>skills := v\<rparr> else u) (users w)\<rparr>"

definition update_location :: "int \<Rightarrow> string \<Rightarrow> world \<Rightarrow> world" where
  "update_location uid v w =
     w\<lparr>users := map (\<lambda>u. if user_id u = uid then u\<lparr>location := v\<rparr> else u) (users w)\<rparr>"

definition update_is_banned :: "int \<Rightarrow> int \<Rightarrow> world \<Rightarrow> world" where
  "update_is_banned uid v w =
     w\<lparr>users := map (\<lambda>u. if user_id u = uid then u\<lparr>is_banned := v\<rparr> else u) (users w)\<rparr>"

text \<open>
  An integer bound to a statement's parameter must fit SQLite's signed 64 bits; otherwise
  \<^verbatim>\<open>cur.execute\<close> raises \<^verbatim>\<open>OverflowError\<close>. The ids that the transport gives fit; an id
  that an admin types need not.
\<close>

definition sqlite_int_ok :: "int \<Rightarrow> bool" where
  "sqlite_int_ok i = (- (2 ^ 63) \<le> i \<and> i < 2 ^ 63)"

text \<open>\<^verbatim>\<open>is_admin\<close>: \<^verbatim>\<open>not ADMIN_ID\<close> holds for \<^verbatim>\<open>None\<close> and for 0.\<close>

definition is_admin :: "env \<Rightarrow> int \<Rightarrow> bool" where
  "is_admin env uid =
     (case ADMIN_ID env of
        None \<Rightarrow> False
      | Some a \<Rightarrow> if a = 0 then False else uid = a)"

section \<open>The transport\<close>

text \<open>A delivery either reaches the chat or raises; a failed delivery leaves no trace.\<close>

definition send_message :: "env \<Rightarrow> int \<Rightarrow> text_msg \<Rightarrow> world \<Rightarrow> exn + world" where
  "send_message env chat msg w =
     (if deliver_ok env (Send chat msg) then Inr (w\<lparr>sent := sent w @ [Send chat msg]\<rparr>)
      else Inl ApiException)"

definition edit_message_text :: "env \<Rightarrow> text_msg \<Rightarrow> int \<Rightarrow> int \<Rightarrow> world \<Rightarrow> exn + world" where
  "edit_message_text env msg chat mid w =
     (if deliver_ok env (Edit chat mid msg) then Inr (w\<lparr>sent := sent w @ [Edit chat mid msg]\<rparr>)
      else Inl ApiException)"

text \<open>A handler's last statement is a \<^verbatim>\<open>bot.send_message\<close>: its exception leaves the handler.\<close>

definition reply :: "env \<Rightarrow> int \<Rightarrow> text_msg \<Rightarrow> world \<Rightarrow> outcome" where
  "reply env chat msg w =
     (case send_message env chat msg w of
        Inl e \<Rightarrow> Raised e w
      | Inr w' \<Rightarrow> Returned w')"

section \<open>The conversation handlers\<close>

definition start :: "env \<Rightarrow> message \<Rightarrow> world \<Rightarrow> outcome" where
  "start env m w =
     (let uid = from_id m;
          w1 = log_activity env uid ''start_command'' ''User started bot'' w
      in if is_admin env uid then
           (case send_message env (chat_id m) AdminModeActivated w1 of
              Inl e \<Rightarrow> Raised e w1
            | Inr w2 \<Rightarrow> reply env (chat_id m) Welcome w2)
         else reply env (chat_id m) Welcome w1)"

text \<open>
  The two button labels of the role keyboard. Their pictographs are outside the range of
  \<^typ>\<open>char\<close> and are written as their UTF-8 bytes; the labels are only compared as a whole
  and searched for the word \<^verbatim>\<open>Freelancer\<close>.
\<close>

definition freelancer_button :: string where
  "freelancer_button = [CHR 0xF0, CHR 0x9F, CHR 0x91, CHR 0xA4] @ '' I'm a Freelancer''"

definition client_button :: string where
  "client_button =
     [CHR 0xF0, CHR 0x9F, CHR 0xA7, CHR 0x91, CHR 0xE2, CHR 0x80, CHR 0x8D,
      CHR 0xF0, CHR 0x9F, CHR 0x92, CHR 0xBC] @ '' I'm a Client''"

definition choose_role :: "env \<Rightarrow> message \<Rightarrow> world \<Rightarrow> outcome" where
  "choose_role env m w =
     (let uid = from_id m;
          username' = (case from_username m of None \<Rightarrow> [] | Some n \<Rightarrow> n);
          role' = (if contains ''Freelancer'' (msg_text m) then ''freelancer'' else ''client'');
          w1 = log_activity env uid ''role_selected'' (''Selected role: '' @ role') w;
          w2 = save_user env uid username' role' w1
      in if role' = ''freelancer'' then
           reply env (chat_id m) AskSkills
             (w2\<lparr>user_state := (user_state w2)(uid \<mapsto> [''step'' \<mapsto> ''ask_skills''])\<rparr>)
         else
           reply env (chat_id m) AskJobTitle
             (w2\<lparr>user_state := (user_state w2)(uid \<mapsto> [''step'' \<mapsto> ''job_title''])\<rparr>))"

definition handle_skills :: "env \<Rightarrow> message \<Rightarrow> world \<Rightarrow> outcome" where
  "handle_skills env m w =
     (let uid = from_id m;
          skills' = msg_text m;
          w1 = log_activity env uid ''set_skills'' (''Skills: '' @ take 50 skills') w;
          w2 = update_skills uid skills' w1
      in reply env (chat_id m) AskLocation
           (w2\<lparr>user_state := (user_state w2)(uid \<mapsto> [''step'' \<mapsto> ''ask_location''])\<rparr>))"

definition handle_location :: "env \<Rightarrow> message \<Rightarrow> world \<Rightarrow> outcome" where
  "handle_location env m w =
     (let uid = from_id m;
          location' = msg_text m;
          w1 = log_activity env uid ''set_location'' (''Location: '' @ location') w;
          w2 = update_location uid location' w1
      in reply env (chat_id m) ProfileComplete
           (w2\<lparr>user_state := (user_state w2)(uid := None)\<rparr>))"

definition handle_job_title :: "env \<Rightarrow> message \<Rightarrow> world \<Rightarrow> outcome" where
  "handle_job_title env m w =
     (let uid = from_id m
      in reply env (chat_id m) AskJobDescription
           (w\<lparr>user_state := (user_state w)
                 (uid \<mapsto> [''step'' \<mapsto> ''job_description'', ''title'' \<mapsto> msg_text m])\<rparr>))"

text \<open>
  \<^verbatim>\<open>user_state[user_id]["description"] = ...\<close> raises \<^verbatim>\<open>KeyError\<close> when the user has no
  entry; the dictionary of the entry is updated in place.
\<close>

definition handle_job_description :: "env \<Rightarrow> message \<Rightarrow> world \<Rightarrow> outcome" where
  "handle_job_description env m w =
     (let uid = from_id m
      in case user_state w uid of
           None \<Rightarrow> Raised (KeyError (str_int uid)) w
         | Some d \<Rightarrow>
             reply env (chat_id m) AskBudget
               (w\<lparr>user_state := (user_state w)
                     (uid \<mapsto> d(''description'' \<mapsto> msg_text m, ''step'' \<mapsto> ''job_budget''))\<rparr>))"

text \<open>
  The notification loop of \<^verbatim>\<open>handle_job_budget\<close>. The body is inside
  \<^verbatim>\<open>try ... except: pass\<close>: a delivery that fails is skipped, a delivery that succeeds is
  logged for the recipient.
\<close>

fun notify_freelancers :: "env \<Rightarrow> text_msg \<Rightarrow> nat \<Rightarrow> int list \<Rightarrow> world \<Rightarrow> world" where
  "notify_freelancers env msg jid [] w = w"
| "notify_freelancers env msg jid (fid # fids) w =
     (case send_message env fid msg w of
        Inl e \<Rightarrow> notify_freelancers env msg jid fids w
      | Inr w' \<Rightarrow>
          notify_freelancers env msg jid fids
            (log_activity env fid ''job_notification''
               (''Notified about job #'' @ str_nat jid) w'))"

text \<open>
  \<^verbatim>\<open>handle_job_budget\<close>. The statements run in the source's order: \<^verbatim>\<open>user_state[user_id]\<close>,
  then \<^verbatim>\<open>job_data['title']\<close> (evaluated for the detail before \<^verbatim>\<open>log_activity\<close> is
  called), then \<^verbatim>\<open>job_data["description"]\<close> (evaluated before \<^verbatim>\<open>create_job\<close> is called);
  each raises \<^verbatim>\<open>KeyError\<close> when the key is absent.
\<close>

definition handle_job_budget :: "env \<Rightarrow> message \<Rightarrow> world \<Rightarrow> outcome" where
  "handle_job_budget env m w =
     (let uid = from_id m
      in case user_state w uid of
           None \<Rightarrow> Raised (KeyError (str_int uid)) w
         | Some job_data \<Rightarrow>
            (case job_data ''title'' of
               None \<Rightarrow> Raised (KeyError ''title'') w
             | Some title' \<Rightarrow>
                let w1 = log_activity env uid ''post_job''
                           (''Job: '' @ take 30 title' @ ''...'') w
                in (case job_data ''description'' of
                      None \<Rightarrow> Raised (KeyError ''description'') w1
                    | Some description' \<Rightarrow>
                       let (jid, w2) = create_job env uid title' description' (msg_text m) w1;
                           w3 = w2\<lparr>user_state := (user_state w2)(uid := None)\<rparr>
                       in (case send_message env (chat_id m)
                                  (JobPosted title' (msg_text m) jid) w3 of
                             Inl e \<Rightarrow> Raised e w3
                           | Inr w4 \<Rightarrow>
                               Returned
                                 (notify_freelancers env
                                    (NewJobAvailable title' (msg_text m)) jid
                                    (get_freelancers w4) w4)))))"

definition handle_unknown :: "env \<Rightarrow> message \<Rightarrow> world \<Rightarrow> outcome" where
  "handle_unknown env m w =
     (let uid = from_id m;
          w1 = log_activity env uid ''unknown_command'' (take 50 (msg_text m)) w
      in if \<not> prefix ''/'' (msg_text m) then Returned w1
         else reply env (chat_id m) UnknownCommand w1)"

section \<open>Commands for every user\<close>

definition list_jobs_command :: "env \<Rightarrow> message \<Rightarrow> world \<Rightarrow> outcome" where
  "list_jobs_command env m w =
     (let w1 = log_activity env (from_id m) ''view_jobs'' ''Browsed job listings'' w
      in reply env (chat_id m) (JobsListing (get_jobs w1)) w1)"

definition profile_command :: "env \<Rightarrow> message \<Rightarrow> world \<Rightarrow> outcome" where
  "profile_command env m w =
     (let uid = from_id m;
          w1 = log_activity env uid ''view_profile'' ''Viewed own profile'' w
      in case find (\<lambda>u. user_id u = uid) (users w1) of
           None \<Rightarrow> reply env (chat_id m) ProfileNotFound w1
         | Some u \<Rightarrow> reply env (chat_id m) (YourProfile u) w1)"

definition help_command :: "env \<Rightarrow> message \<Rightarrow> world \<Rightarrow> outcome" where
  "help_command env m w =
     (let w1 = log_activity env (from_id m) ''view_help'' ''Viewed help'' w
      in reply env (chat_id m) HelpText w1)"

text \<open>\<^verbatim>\<open>get_id_command\<close> compares \<^verbatim>\<open>str(user_id)\<close> with \<^verbatim>\<open>str(ADMIN_ID)\<close>.\<close>

definition get_id_command :: "env \<Rightarrow> message \<Rightarrow> world \<Rightarrow> outcome" where
  "get_id_command env m w =
     (let uid = from_id m;
          username' = (case from_username m of None \<Rightarrow> ''No username''
                       | Some n \<Rightarrow> if n = [] then ''No username'' else n)
      in case send_message env (chat_id m) (TelegramInfo uid username') w of
           Inl e \<Rightarrow> Raised e w
         | Inr w1 \<Rightarrow>
             if str_int uid = (case ADMIN_ID env of None \<Rightarrow> ''None'' | Some a \<Rightarrow> str_int a)
             then reply env (chat_id m) (AdminNote uid) w1
             else Returned w1)"

section \<open>Admin commands\<close>

definition admin_dashboard :: "env \<Rightarrow> message \<Rightarrow> world \<Rightarrow> outcome" where
  "admin_dashboard env m w =
     (if \<not> is_admin env (from_id m) then reply env (chat_id m) AdminAccessRequired w
      else reply env (chat_id m) DashboardReport w)"

definition admin_users :: "env \<Rightarrow> message \<Rightarrow> world \<Rightarrow> outcome" where
  "admin_users env m w =
     (if \<not> is_admin env (from_id m) then Returned w
      else reply env (chat_id m) UsersReport w)"

definition admin_all_jobs :: "env \<Rightarrow> message \<Rightarrow> world \<Rightarrow> outcome" where
  "admin_all_jobs env m w =
     (if \<not> is_admin env (from_id m) then Returned w
      else reply env (chat_id m) AllJobsReport w)"

text \<open>
  \<^verbatim>\<open>view_user_detail\<close>: the \<^verbatim>\<open>try\<close> covers the parsing only and catches \<^verbatim>\<open>ValueError\<close>; an
  id that does not fit the store leaves the handler as \<^verbatim>\<open>OverflowError\<close>.
\<close>

definition view_user_detail :: "env \<Rightarrow> message \<Rightarrow> world \<Rightarrow> outcome" where
  "view_user_detail env m w =
     (if \<not> is_admin env (from_id m) then Returned w
      else
        let parts = split_ws (msg_text m)
        in if length parts < 2 then reply env (chat_id m) ViewUserUsage w
           else case py_int (parts ! 1) of
                  Inl e \<Rightarrow> reply env (chat_id m) InvalidUserId w
                | Inr uid \<Rightarrow>
                   if \<not> sqlite_int_ok uid then Raised OverflowError w
                   else
                     (case find (\<lambda>u. user_id u = uid) (users w) of
                        None \<Rightarrow> reply env (chat_id m) (UserNotFound uid) w
                      | Some u \<Rightarrow> reply env (chat_id m) (UserDetails u) w))"

text \<open>
  The \<^verbatim>\<open>try\<close> block of \<^verbatim>\<open>handle_ban_unban\<close>. The \<^verbatim>\<open>UPDATE\<close> is executed on the handler's
  connection and is committed only after \<^verbatim>\<open>log_activity\<close> has returned, so the handler
  holds the write lock while \<^verbatim>\<open>log_activity\<close> runs. An id that does not fit the store makes
  the \<^verbatim>\<open>UPDATE\<close> raise before anything is written.
\<close>

definition ban_unban_try :: "env \<Rightarrow> message \<Rightarrow> world \<Rightarrow> outcome" where
  "ban_unban_try env m w =
     (case item (split_sep CHR ''_'' (msg_text m)) 0 of
        Inl e \<Rightarrow> Raised e w
      | Inr command \<Rightarrow>
         (case item (split_sep CHR ''_'' (msg_text m)) 1 of
            Inl e \<Rightarrow> Raised e w
          | Inr arg \<Rightarrow>
             (case py_int arg of
                Inl e \<Rightarrow> Raised e w
              | Inr uid \<Rightarrow>
                 if \<not> sqlite_int_ok uid then Raised OverflowError w
                 else
                 let (action', w2) =
                       (if command = ''/ban'' then
                          (''banned'',
                           log_activity env uid ''user_banned''
                             (''Banned by admin '' @ str_int (from_id m))
                             ((update_is_banned uid 1 w)\<lparr>write_lock := True\<rparr>))
                        else
                          (''unbanned'',
                           log_activity env uid ''user_unbanned''
                             (''Unbanned by admin '' @ str_int (from_id m))
                             ((update_is_banned uid 0 w)\<lparr>write_lock := True\<rparr>)));
                     w3 = w2\<lparr>write_lock := False\<rparr>;
                     username' = (case find (\<lambda>u. user_id u = uid) (users w3) of
                                    None \<Rightarrow> ''Unknown'' | Some u \<Rightarrow> username u)
                 in reply env (chat_id m) (BanResult username' uid action') w3)))"

text \<open>\<^verbatim>\<open>except Exception as e\<close>: the error text is sent to the admin.\<close>

definition handle_ban_unban :: "env \<Rightarrow> message \<Rightarrow> world \<Rightarrow> outcome" where
  "handle_ban_unban env m w =
     (if \<not> is_admin env (from_id m) then Returned w
      else case ban_unban_try env m w of
             Returned w' \<Rightarrow> Returned w'
           | Raised e w' \<Rightarrow> reply env (chat_id m) (ErrorText e) w')"

definition daily_report :: "env \<Rightarrow> message \<Rightarrow> world \<Rightarrow> outcome" where
  "daily_report env m w =
     (if \<not> is_admin env (from_id m) then Returned w
      else reply env (chat_id m) DailyReport w)"

definition analytics :: "env \<Rightarrow> message \<Rightarrow> world \<Rightarrow> outcome" where
  "analytics env m w =
     (if \<not> is_admin env (from_id m) then Returned w
      else reply env (chat_id m) AnalyticsReport w)"

section \<open>Broadcast\<close>

text \<open>
  The confirmation button's \<^verbatim>\<open>callback_data\<close>, \<^verbatim>\<open>f"confirm_broadcast:{broadcast_text}"\<close>, and
  the text that \<^verbatim>\<open>handle_callback\<close> reads back from it, \<^verbatim>\<open>call.data.split(':', 1)[1]\<close>.
\<close>

definition confirm_callback_data :: "string \<Rightarrow> string" where
  "confirm_callback_data broadcast_text = ''confirm_broadcast:'' @ broadcast_text"

definition callback_broadcast_text :: "string \<Rightarrow> exn + string" where
  "callback_broadcast_text data = item (split1 CHR '':'' data) 1"

definition broadcast_message :: "env \<Rightarrow> message \<Rightarrow> world \<Rightarrow> outcome" where
  "broadcast_message env m w =
     (if \<not> is_admin env (from_id m) then Returned w
      else if length (split_ws (msg_text m)) < 2 then reply env (chat_id m) BroadcastUsage w
      else case item (split1 CHR '' '' (msg_text m)) 1 of
             Inl e \<Rightarrow> Raised e w
           | Inr broadcast_text \<Rightarrow>
               reply env (chat_id m)
                 (BroadcastConfirmation (take 100 broadcast_text)
                    (confirm_callback_data broadcast_text)) w)"

text \<open>
  The delivery loop of \<^verbatim>\<open>handle_callback\<close>, with its two counters. The body is inside
  \<^verbatim>\<open>try ... except\<close>: a delivery that fails is counted and the loop goes on.
\<close>

fun broadcast_loop ::
  "env \<Rightarrow> text_msg \<Rightarrow> int list \<Rightarrow> nat \<times> nat \<times> world \<Rightarrow> nat \<times> nat \<times> world" where
  "broadcast_loop env msg [] acc = acc"
| "broadcast_loop env msg (uid # uids) (sent_count, failed_count, w) =
     (case send_message env uid msg w of
        Inr w' \<Rightarrow> broadcast_loop env msg uids (sent_count + 1, failed_count, w')
      | Inl e \<Rightarrow> broadcast_loop env msg uids (sent_count, failed_count + 1, w))"

definition handle_callback :: "env \<Rightarrow> callback \<Rightarrow> world \<Rightarrow> outcome" where
  "handle_callback env call w =
     (if cb_data call = ''cancel_broadcast'' then
        (case edit_message_text env BroadcastCancelled (cb_chat_id call) (cb_message_id call) w of
           Inl e \<Rightarrow> Raised e w
         | Inr w' \<Rightarrow> Returned w')
      else if prefix ''confirm_broadcast:'' (cb_data call) then
        (case callback_broadcast_text (cb_data call) of
           Inl e \<Rightarrow> Raised e w
         | Inr broadcast_text \<Rightarrow>
            (case edit_message_text env SendingBroadcast (cb_chat_id call)
                    (cb_message_id call) w of
               Inl e \<Rightarrow> Raised e w
             | Inr w1 \<Rightarrow>
                let users' = map user_id (filter (\<lambda>u. is_banned u = 0) (users w1));
                    total_users = length users';
                    (sent_count, failed_count, w2) =
                       broadcast_loop env (Announcement broadcast_text) users' (0, 0, w1)
                in (case send_message env (cb_chat_id call)
                           (BroadcastComplete total_users sent_count failed_count
                              (take 100 broadcast_text)) w2 of
                      Inl e \<Rightarrow> Raised e w2
                    | Inr w3 \<Rightarrow>
                        Returned
                          (log_activity env (cb_from_id call) ''broadcast_sent''
                             (''Sent to '' @ str_nat sent_count @ '' users. Message: '' @
                              take 50 broadcast_text) w3))))
      else Returned w)"

section \<open>Routing\<close>

text \<open>
  The transport library (telebot) is not part of the repository. Its routing is modelled
  from its documented behaviour: a text message is given to the first handler, in the
  order of registration in the file, whose filter accepts it; a filter
  \<^verbatim>\<open>commands=[c]\<close> accepts a text that starts with \<^verbatim>\<open>/\<close> and whose first word, without
  the slash and without a trailing \<^verbatim>\<open>@botname\<close>, is \<open>c\<close>.
\<close>

definition extract_command :: "string \<Rightarrow> string option" where
  "extract_command t =
     (if prefix ''/'' t then
        (case split_ws t of
           [] \<Rightarrow> None
         | word # _ \<Rightarrow> Some (tl (takeWhile (\<lambda>c. c \<noteq> CHR ''@'') word)))
      else None)"

definition step_of :: "world \<Rightarrow> int \<Rightarrow> string option" where
  "step_of w uid = (case user_state w uid of None \<Rightarrow> None | Some d \<Rightarrow> d ''step'')"

definition dispatch :: "env \<Rightarrow> message \<Rightarrow> world \<Rightarrow> outcome" where
  "dispatch env m w =
     (let t = msg_text m; cmd = extract_command t; step = step_of w (from_id m)
      in if cmd = Some ''start'' then start env m w
         else if t \<in> set [freelancer_button, client_button] then choose_role env m w
         else if step = Some ''ask_skills'' then handle_skills env m w
         else if step = Some ''ask_location'' then handle_location env m w
         else if step = Some ''job_title'' then handle_job_title env m w
         else if step = Some ''job_description'' then handle_job_description env m w
         else if step = Some ''job_budget'' then handle_job_budget env m w
         else if cmd = Some ''jobs'' then list_jobs_command env m w
         else if cmd = Some ''profile'' then profile_command env m w
         else if cmd = Some ''help'' then help_command env m w
         else if cmd = Some ''getid'' then get_id_command env m w
         else if cmd = Some ''dashboard'' then admin_dashboard env m w
         else if cmd = Some ''users'' then admin_users env m w
         else if cmd = Some ''alljobs'' then admin_all_jobs env m w
         else if cmd = Some ''viewuser'' then view_user_detail env m w
         else if prefix ''/ban_'' t \<or> prefix ''/unban_'' t then handle_ban_unban env m w
         else if cmd = Some ''dailyreport'' then daily_report env m w
         else if cmd = Some ''analytics'' then analytics env m w
         else if cmd = Some ''broadcast'' then broadcast_message env m w
         else handle_unknown env m w)"

section \<open>Observations\<close>

text \<open>The rows that a step appended to \<^verbatim>\<open>user_activity\<close>, which is append-only.\<close>

definition new_events :: "world \<Rightarrow> world \<Rightarrow> activity_row list" where
  "new_events w w' = drop (length (user_activity w)) (user_activity w')"

text \<open>
  The delivery accounts that were sent out: the counts \<open>(total, succeeded, failed)\<close> of the
  \<^verbatim>\<open>BROADCAST COMPLETE\<close> messages, the only template of the source that shows such counts.
\<close>

fun reported_counts :: "outgoing list \<Rightarrow> (nat \<times> nat \<times> nat) list" where
  "reported_counts [] = []"
| "reported_counts (Send chat (BroadcastComplete n_total n_sent n_failed preview) # outs) =
     (n_total, n_sent, n_failed) # reported_counts outs"
| "reported_counts (out # outs) = reported_counts outs"

section \<open>Concrete inputs\<close>

text \<open>An empty store, and a store with one freelancer whose profile is complete.\<close>

definition world0 :: world where
  "world0 =
     \<lparr>users = [], jobs = [], jobs_seq = 0, user_activity = [], activity_seq = 0,
      daily_metrics = [], write_lock = False, user_state = Map.empty, sent = []\<rparr>"

definition world_profile :: world where
  "world_profile =
     world0\<lparr>users :=
       [\<lparr>user_id = 7, username = ''ana'', role = ''freelancer'', skills = ''Python'',
         location = ''Manila'', is_banned = 0, created = ''2024-01-01 09:00:00''\<rparr>]\<rparr>"

text \<open>
  The admin is user 1; every delivery and every insert succeeds. In \<open>env_no_admin\<close> no admin
  is configured; in \<open>env_unreachable\<close> user 7 cannot be reached.
\<close>

definition env0 :: env where
  "env0 =
     \<lparr>ADMIN_ID = Some 1, now = ''2024-01-02 10:00:00'', deliver_ok = (\<lambda>out. True),
      insert_ok = (\<lambda>uid act. True)\<rparr>"

definition env_no_admin :: env where
  "env_no_admin = env0\<lparr>ADMIN_ID := None\<rparr>"

definition env_unreachable :: env where
  "env_unreachable =
     env0\<lparr>deliver_ok := (\<lambda>out. case out of Send chat msg \<Rightarrow> chat \<noteq> 7 | Edit chat mid msg \<Rightarrow> True)\<rparr>"

definition text_message :: "int \<Rightarrow> string \<Rightarrow> message" where
  "text_message uid t = \<lparr>from_id = uid, from_username = Some ''bob'', chat_id = uid, msg_text = t\<rparr>"

definition confirm_press :: "int \<Rightarrow> string \<Rightarrow> callback" where
  "confirm_press uid t =
     \<lparr>cb_from_id = uid, cb_data = confirm_callback_data t, cb_chat_id = uid, cb_message_id = 3\<rparr>"

text \<open>User 5 has entered a job title and a description and is asked for the budget.\<close>

definition world_budget :: world where
  "world_budget =
     world_profile\<lparr>user_state :=
       [5 \<mapsto> [''step'' \<mapsto> ''job_budget'', ''title'' \<mapsto> ''Logo design'',
              ''description'' \<mapsto> ''Need a logo'']]\<rparr>"

text \<open>User 5 has chosen the client role and is asked for the job title.\<close>

definition world_title :: world where
  "world_title = world_profile\<lparr>user_state := [5 \<mapsto> [''step'' \<mapsto> ''job_title'']]\<rparr>"

text \<open>An entry at the budget step whose description is missing.\<close>

definition world_no_description :: world where
  "world_no_description =
     world_profile\<lparr>user_state :=
       [5 \<mapsto> [''step'' \<mapsto> ''job_budget'', ''title'' \<mapsto> ''Logo design'']]\<rparr>"

text \<open>A store with the freelancer 7 and the client 8.\<close>

definition world_two :: world where
  "world_two =
     world0\<lparr>users :=
       [\<lparr>user_id = 7, username = ''ana'', role = ''freelancer'', skills = ''Python'',
         location = ''Manila'', is_banned = 0, created = ''2024-01-01 09:00:00''\<rparr>,
        \<lparr>user_id = 8, username = ''ben'', role = ''client'', skills = [],
         location = [], is_banned = 0, created = ''2024-01-01 09:30:00''\<rparr>]\<rparr>"

text \<open>The freelancer 7 of \<open>world_profile\<close>, banned.\<close>

definition world_banned :: world where
  "world_banned =
     world0\<lparr>users :=
       [\<lparr>user_id = 7, username = ''ana'', role = ''freelancer'', skills = ''Python'',
         location = ''Manila'', is_banned = 1, created = ''2024-01-01 09:00:00''\<rparr>]\<rparr>"

text \<open>An environment in which the transport refuses every report of a broadcast.\<close>

definition env_report_fails :: env where
  "env_report_fails =
     env0\<lparr>deliver_ok :=
       (\<lambda>out. case out of
                Send chat msg \<Rightarrow>
                  (case msg of BroadcastComplete n_total n_sent n_failed preview \<Rightarrow> False
                   | _ \<Rightarrow> True)
              | Edit chat mid msg \<Rightarrow> True)\<rparr>"

text \<open>A text of 60 characters.\<close>

definition long_text :: string where
  "long_text = replicate 60 CHR ''a''"

lemmas inputs = world0_def world_profile_def world_title_def world_budget_def
  world_no_description_def env0_def env_no_admin_def env_unreachable_def
  text_message_def confirm_press_def world_two_def world_banned_def env_report_fails_def

section \<open>Re-registration\<close>

lemma log_activity_users: "users (log_activity env uid act det w) = users w"
  by (simp add: log_activity_def)

lemma reply_users: "users (world_of (reply env chat msg w)) = users w"
  by (simp add: reply_def send_message_def)

text \<open>
  What a role message does to the users table: the sender's row is deleted and a row that
  holds only the id, the handle and the role is inserted.
\<close>

lemma choose_role_users:
  "users (world_of (choose_role env m w)) =
     insort_key user_id
       \<lparr>user_id = from_id m,
        username = (case from_username m of None \<Rightarrow> [] | Some n \<Rightarrow> n),
        role = (if contains ''Freelancer'' (msg_text m) then ''freelancer'' else ''client''),
        skills = [], location = [], is_banned = 0, created = now env\<rparr>
       (filter (\<lambda>u. user_id u \<noteq> from_id m) (users w))"
  by (simp add: choose_role_def Let_def reply_users save_user_def log_activity_users)

text \<open>
  C1 at the failing input. User 7 has the skills \<open>Python\<close> and the location \<open>Manila\<close> and
  sends the client button: the one row of the user now has the role \<open>client\<close>, but its
  skills and location are empty and its creation time is that of the message. The same
  replacement lifts a ban: a banned freelancer who sends the freelancer button is again
  among the freelancers that are notified, although only \<^verbatim>\<open>handle_ban_unban\<close> is meant to
  change the flag, and it does so with an \<^verbatim>\<open>UPDATE\<close> that keeps the other columns.
\<close>

theorem reregistration_wipes_profile:
  "users world_profile =
     [\<lparr>user_id = 7, username = ''ana'', role = ''freelancer'', skills = ''Python'',
       location = ''Manila'', is_banned = 0, created = ''2024-01-01 09:00:00''\<rparr>]
   \<and> users (world_of (choose_role env0 (text_message 7 client_button) world_profile)) =
     [\<lparr>user_id = 7, username = ''bob'', role = ''client'', skills = [],
       location = [], is_banned = 0, created = ''2024-01-02 10:00:00''\<rparr>]
   \<and> get_freelancers world_banned = []
   \<and> get_freelancers
       (world_of (choose_role env0 (text_message 7 freelancer_button) world_banned)) = [7]"
  by (simp add: choose_role_users get_freelancers_def freelancer_button_def client_button_def
      inputs)

section \<open>Admin authorization\<close>

text \<open>The admin commands that arrive as messages check the caller first.\<close>

lemma admin_commands_gated:
  assumes "\<not> is_admin env (from_id m)"
  shows "admin_users env m w = Returned w"
    and "admin_all_jobs env m w = Returned w"
    and "view_user_detail env m w = Returned w"
    and "handle_ban_unban env m w = Returned w"
    and "daily_report env m w = Returned w"
    and "analytics env m w = Returned w"
    and "broadcast_message env m w = Returned w"
    and "admin_dashboard env m w = reply env (chat_id m) AdminAccessRequired w"
  using assms
  by (simp_all add: admin_users_def admin_all_jobs_def view_user_detail_def
      handle_ban_unban_def daily_report_def analytics_def broadcast_message_def
      admin_dashboard_def)

text \<open>
  C2 at the failing input. No admin is configured and user 9, who is not an admin, presses
  a confirmation button carrying the text \<open>hi\<close>: \<^verbatim>\<open>handle_callback\<close>, which never calls
  \<^verbatim>\<open>is_admin\<close>, delivers the announcement to user 7 and reports the batch to user 9. The
  same happens when user 1 is the configured admin.
\<close>

theorem handle_callback_not_gated:
  "\<not> is_admin env_no_admin 9
   \<and> sent (world_of (handle_callback env_no_admin (confirm_press 9 ''hi'') world_profile)) =
     [Edit 9 3 SendingBroadcast, Send 7 (Announcement ''hi''),
      Send 9 (BroadcastComplete 1 1 0 ''hi'')]
   \<and> \<not> is_admin env0 9
   \<and> sent (world_of (handle_callback env0 (confirm_press 9 ''hi'') world_profile)) =
     [Edit 9 3 SendingBroadcast, Send 7 (Announcement ''hi''),
      Send 9 (BroadcastComplete 1 1 0 ''hi'')]"
  by (simp add: is_admin_def handle_callback_def callback_broadcast_text_def
      confirm_callback_data_def split1_def item_def edit_message_text_def send_message_def
      log_activity_def Let_def inputs)

section \<open>Activity of the conversation steps\<close>

lemma new_events_log_activity:
  "new_events w (log_activity env uid act det w) =
     (if write_lock w then []
      else if \<not> insert_ok env uid act then []
      else [\<lparr>activity_id = activity_seq w + 1, actor = uid, action = act, details = det,
             logged_at = now env\<rparr>])"
  by (simp add: new_events_def log_activity_def)

lemma reply_user_activity:
  "user_activity (world_of (reply env chat msg w)) = user_activity w"
  by (simp add: reply_def send_message_def)

text \<open>
  The role, skills and location steps call \<^verbatim>\<open>log_activity\<close> once; when the insert
  succeeds, one row is appended for the sender. When it fails, the step goes on without it.
\<close>

lemma choose_role_logs:
  "new_events w (world_of (choose_role env m w)) =
     new_events w (log_activity env (from_id m) ''role_selected''
       (''Selected role: '' @
          (if contains ''Freelancer'' (msg_text m) then ''freelancer'' else ''client'')) w)"
  by (simp add: choose_role_def Let_def reply_user_activity save_user_def new_events_def)

lemma handle_skills_logs:
  "new_events w (world_of (handle_skills env m w)) =
     new_events w (log_activity env (from_id m) ''set_skills''
       (''Skills: '' @ take 50 (msg_text m)) w)"
  by (simp add: handle_skills_def Let_def reply_user_activity update_skills_def new_events_def)

lemma handle_location_logs:
  "new_events w (world_of (handle_location env m w)) =
     new_events w (log_activity env (from_id m) ''set_location''
       (''Location: '' @ msg_text m) w)"
  by (simp add: handle_location_def Let_def reply_user_activity update_location_def
      new_events_def)

text \<open>The title and description steps never call \<^verbatim>\<open>log_activity\<close>.\<close>

lemma handle_job_title_logs_nothing:
  "user_activity (world_of (handle_job_title env m w)) = user_activity w"
  by (simp add: handle_job_title_def Let_def reply_user_activity)

lemma handle_job_description_logs_nothing:
  "user_activity (world_of (handle_job_description env m w)) = user_activity w"
  by (simp add: handle_job_description_def Let_def reply_user_activity split: option.splits)

text \<open>
  C3 at the failing input. User 5 is asked for the job title and sends \<open>Logo design\<close>, then
  sends the description \<open>Need a logo\<close>: both messages are routed to their steps, the
  conversation advances to the budget step, and no row is appended to \<^verbatim>\<open>user_activity\<close>,
  although every insert would succeed.
\<close>

theorem title_and_description_steps_log_nothing:
  "new_events world_title
     (world_of (dispatch env0 (text_message 5 ''Logo design'') world_title)) = []
   \<and> new_events world_title
       (world_of (dispatch env0 (text_message 5 ''Need a logo'')
          (world_of (dispatch env0 (text_message 5 ''Logo design'') world_title)))) = []
   \<and> step_of
       (world_of (dispatch env0 (text_message 5 ''Need a logo'')
          (world_of (dispatch env0 (text_message 5 ''Logo design'') world_title)))) 5 =
     Some ''job_budget''"
  by (simp add: dispatch_def Let_def extract_command_def step_of_def freelancer_button_def
      client_button_def handle_job_title_def handle_job_description_def reply_def
      send_message_def new_events_def inputs)

section \<open>A budget message without its accumulator\<close>

text \<open>No handler but \<^verbatim>\<open>handle_job_budget\<close> writes to the jobs table.\<close>

lemma log_activity_jobs: "jobs (log_activity env uid act det w) = jobs w"
  by (simp add: log_activity_def)

lemma reply_jobs: "jobs (world_of (reply env chat msg w)) = jobs w"
  by (simp add: reply_def send_message_def)

lemma send_message_jobs: "send_message env chat msg w = Inr w' \<Longrightarrow> jobs w' = jobs w"
  by (auto simp: send_message_def split: if_splits)

lemma start_jobs: "jobs (world_of (start env m w)) = jobs w"
  by (auto simp: start_def Let_def reply_jobs log_activity_jobs
      dest: send_message_jobs split: sum.splits)

lemma choose_role_jobs: "jobs (world_of (choose_role env m w)) = jobs w"
  by (simp add: choose_role_def Let_def reply_jobs save_user_def log_activity_jobs)

lemma handle_skills_jobs: "jobs (world_of (handle_skills env m w)) = jobs w"
  by (simp add: handle_skills_def Let_def reply_jobs update_skills_def log_activity_jobs)

lemma handle_location_jobs: "jobs (world_of (handle_location env m w)) = jobs w"
  by (simp add: handle_location_def Let_def reply_jobs update_location_def log_activity_jobs)

lemma handle_job_title_jobs: "jobs (world_of (handle_job_title env m w)) = jobs w"
  by (simp add: handle_job_title_def Let_def reply_jobs)

lemma handle_job_description_jobs: "jobs (world_of (handle_job_description env m w)) = jobs w"
  by (simp add: handle_job_description_def Let_def reply_jobs split: option.splits)

lemma handle_job_budget_incomplete:
  assumes "user_state w (from_id m) = None \<or>
           (\<exists>d. user_state w (from_id m) = Some d \<and> (d ''title'' = None \<or> d ''description'' = None))"
  shows "jobs (world_of (handle_job_budget env m w)) = jobs w"
  using assms
  by (auto simp: handle_job_budget_def Let_def log_activity_jobs split: option.splits)

lemma list_jobs_command_jobs: "jobs (world_of (list_jobs_command env m w)) = jobs w"
  by (simp add: list_jobs_command_def Let_def reply_jobs log_activity_jobs)

lemma profile_command_jobs: "jobs (world_of (profile_command env m w)) = jobs w"
  by (simp add: profile_command_def Let_def reply_jobs log_activity_jobs split: option.splits)

lemma help_command_jobs: "jobs (world_of (help_command env m w)) = jobs w"
  by (simp add: help_command_def Let_def reply_jobs log_activity_jobs)

lemma get_id_command_jobs: "jobs (world_of (get_id_command env m w)) = jobs w"
  by (auto simp: get_id_command_def Let_def reply_jobs dest: send_message_jobs split: sum.splits)

lemma admin_reports_jobs:
  "jobs (world_of (admin_dashboard env m w)) = jobs w"
  "jobs (world_of (admin_users env m w)) = jobs w"
  "jobs (world_of (admin_all_jobs env m w)) = jobs w"
  "jobs (world_of (daily_report env m w)) = jobs w"
  "jobs (world_of (analytics env m w)) = jobs w"
  by (simp_all add: admin_dashboard_def admin_users_def admin_all_jobs_def daily_report_def
      analytics_def reply_jobs)

lemma view_user_detail_jobs: "jobs (world_of (view_user_detail env m w)) = jobs w"
  by (simp add: view_user_detail_def Let_def reply_jobs split: sum.splits option.splits)

lemma ban_unban_try_jobs: "jobs (world_of (ban_unban_try env m w)) = jobs w"
  by (simp add: ban_unban_try_def Let_def reply_jobs log_activity_jobs update_is_banned_def
      split: sum.splits prod.splits)

lemma handle_ban_unban_jobs: "jobs (world_of (handle_ban_unban env m w)) = jobs w"
proof (cases "ban_unban_try env m w")
  case (Returned w')
  then show ?thesis
    using ban_unban_try_jobs [of env m w] by (simp add: handle_ban_unban_def)
next
  case (Raised e w')
  then show ?thesis
    using ban_unban_try_jobs [of env m w] by (simp add: handle_ban_unban_def reply_jobs)
qed

lemma broadcast_message_jobs: "jobs (world_of (broadcast_message env m w)) = jobs w"
  by (simp add: broadcast_message_def reply_jobs split: sum.splits)

lemma handle_unknown_jobs: "jobs (world_of (handle_unknown env m w)) = jobs w"
  by (simp add: handle_unknown_def Let_def reply_jobs log_activity_jobs)

lemmas handler_jobs = start_jobs choose_role_jobs handle_skills_jobs handle_location_jobs
  handle_job_title_jobs handle_job_description_jobs list_jobs_command_jobs
  profile_command_jobs help_command_jobs get_id_command_jobs admin_reports_jobs
  view_user_detail_jobs handle_ban_unban_jobs broadcast_message_jobs handle_unknown_jobs


text \<open>
  C4, as the code has it. When the sender has no entry in \<^verbatim>\<open>user_state\<close>, or an entry
  without a title or without a description, no message creates a job: without an entry
  the message is routed as a message outside any flow, and \<^verbatim>\<open>handle_job_budget\<close> raises
  \<^verbatim>\<open>KeyError\<close> before it reaches \<^verbatim>\<open>create_job\<close>.
\<close>

theorem lost_accumulator_creates_no_job:
  assumes "user_state w (from_id m) = None \<or>
           (\<exists>d. user_state w (from_id m) = Some d \<and> (d ''title'' = None \<or> d ''description'' = None))"
  shows "jobs (world_of (dispatch env m w)) = jobs w"
  using handle_job_budget_incomplete [OF assms, of env]
  by (simp add: dispatch_def Let_def handler_jobs)

theorem lost_accumulator_creates_no_job_witness:
  "user_state world_profile 5 = None
   \<and> jobs (world_of (dispatch env0 (text_message 5 ''$50'') world_profile)) = []
   \<and> user_state world_no_description 5 =
       Some [''step'' \<mapsto> ''job_budget'', ''title'' \<mapsto> ''Logo design'']
   \<and> jobs (world_of (dispatch env0 (text_message 5 ''$50'') world_no_description)) = []"
proof -
  have absent: "user_state world_profile (from_id (text_message 5 ''$50'')) = None"
    by (simp add: inputs)
  have partial: "\<exists>d. user_state world_no_description (from_id (text_message 5 ''$50'')) = Some d
      \<and> (d ''title'' = None \<or> d ''description'' = None)"
    by (simp add: inputs)
  have "jobs world_profile = []" "jobs world_no_description = []"
    by (simp_all add: inputs)
  then show ?thesis
    using lost_accumulator_creates_no_job [of world_profile "text_message 5 ''$50''" env0]
      lost_accumulator_creates_no_job [of world_no_description "text_message 5 ''$50''" env0]
      absent partial
    by (simp add: inputs)
qed


text \<open>
  C4 as stated fails in its second half: user 5 has no entry and sends the budget \<open>$50\<close>;
  the message goes to \<^verbatim>\<open>handle_unknown\<close>, which answers only texts that start with a
  slash, and nothing at all is sent.
\<close>

theorem lost_accumulator_counterexample:
  "user_state world_profile 5 = None
   \<and> sent (world_of (dispatch env0 (text_message 5 ''$50'') world_profile)) = []"
  by (simp add: dispatch_def Let_def extract_command_def step_of_def freelancer_button_def
      client_button_def handle_unknown_def log_activity_def inputs)


section \<open>Ban and unban\<close>

text \<open>
  C10 at the failing input. The admin bans user 999, who has no row. The users table is
  unchanged and success is reported for \<open>Unknown\<close>, but no row is appended to
  \<^verbatim>\<open>user_activity\<close>: \<^verbatim>\<open>log_activity\<close> inserts through a second connection while the
  handler's \<^verbatim>\<open>UPDATE\<close> is uncommitted, the insert fails on the write lock, and
  \<^verbatim>\<open>log_activity\<close> swallows the failure. The store itself would accept the insert.
\<close>

theorem ban_absent_user_not_logged:
  "is_admin env0 1 \<and> insert_ok env0 999 ''user_banned''
   \<and> users (world_of (handle_ban_unban env0 (text_message 1 ''/ban_999'') world_profile)) =
       users world_profile
   \<and> user_activity (world_of (handle_ban_unban env0 (text_message 1 ''/ban_999'') world_profile)) = []
   \<and> sent (world_of (handle_ban_unban env0 (text_message 1 ''/ban_999'') world_profile)) =
       [Send 1 (BanResult ''Unknown'' 999 ''banned'')]"
  by (simp add: is_admin_def handle_ban_unban_def ban_unban_try_def split_sep_def item_def
      py_int_def strip_def is_space_def is_digit_def digits_val_def sqlite_int_ok_def
      update_is_banned_def
      log_activity_def reply_def send_message_def Let_def inputs)

section \<open>Daily metrics\<close>

lemma replace_metric_twice:
  "replace_metric r (replace_metric r ms) = replace_metric r ms"
  by (simp add: replace_metric_def)

lemma replace_metric_other:
  "d \<noteq> date r \<Longrightarrow>
   filter (\<lambda>m. date m = d) (replace_metric r ms) = filter (\<lambda>m. date m = d) ms"
  by (induction ms) (auto simp: replace_metric_def)

text \<open>
  C6. Two runs of the aggregator for the same date, with nothing written in between, leave
  the store as one run leaves it: there is exactly one row for the date, and its counts are
  those of the first run. (A run that finds the write lock taken writes nothing; the
  theorem is about runs that can write.)
\<close>

theorem update_daily_metrics_idempotent:
  assumes "\<not> write_lock w"
  shows "update_daily_metrics today (update_daily_metrics today w) = update_daily_metrics today w
       \<and> length (filter (\<lambda>m. date m = today) (daily_metrics (update_daily_metrics today w))) = 1
       \<and> filter (\<lambda>m. date m = today)
            (daily_metrics (update_daily_metrics today (update_daily_metrics today w))) =
          filter (\<lambda>m. date m = today) (daily_metrics (update_daily_metrics today w))"
  using assms
  by (simp add: update_daily_metrics_def Let_def replace_metric_twice replace_metric_def)

theorem update_daily_metrics_idempotent_witness:
  "\<not> write_lock world_profile
   \<and> update_daily_metrics ''2024-01-01'' (update_daily_metrics ''2024-01-01'' world_profile) =
     update_daily_metrics ''2024-01-01'' world_profile
   \<and> daily_metrics (update_daily_metrics ''2024-01-01'' (update_daily_metrics ''2024-01-01'' world_profile)) =
     [\<lparr>date = ''2024-01-01'', new_users = 1, new_jobs = 0, active_users = 0\<rparr>]"
proof -
  have free: "\<not> write_lock world_profile"
    by (simp add: world_profile_def world0_def)
  have once: "daily_metrics (update_daily_metrics ''2024-01-01'' world_profile) =
      [\<lparr>date = ''2024-01-01'', new_users = 1, new_jobs = 0, active_users = 0\<rparr>]"
    by (simp add: update_daily_metrics_def Let_def replace_metric_def DATE_def
        world_profile_def world0_def)
  show ?thesis
    using free once update_daily_metrics_idempotent [OF free, of "''2024-01-01''"] by simp
qed

lemma update_daily_metrics_other_date:
  "d \<noteq> today \<Longrightarrow>
   filter (\<lambda>m. date m = d) (daily_metrics (update_daily_metrics today w)) =
   filter (\<lambda>m. date m = d) (daily_metrics w)"
  by (simp add: update_daily_metrics_def Let_def replace_metric_other)

text \<open>
  C9. A run writes the row of the date it reads and no other: over any sequence of runs,
  the rows of a date that is not the current date of any of the runs stay as they were. A
  day without a run of its own therefore never receives a row from a later run.
\<close>

theorem metrics_runs_only_current_date:
  assumes "d \<notin> set days"
  shows "filter (\<lambda>m. date m = d) (daily_metrics (metrics_runs days w)) =
         filter (\<lambda>m. date m = d) (daily_metrics w)"
  using assms
proof (induction days arbitrary: w)
  case Nil
  then show ?case by simp
next
  case (Cons today days)
  then have "d \<noteq> today" and "d \<notin> set days" by auto
  then show ?case
    using Cons.IH [of "update_daily_metrics today w"]
    by (simp add: update_daily_metrics_other_date)
qed

theorem metrics_runs_only_current_date_witness:
  "''2024-01-02'' \<notin> set [''2024-01-01'', ''2024-01-03'']
   \<and> filter (\<lambda>m. date m = ''2024-01-02'')
       (daily_metrics (metrics_runs [''2024-01-01'', ''2024-01-03''] world_profile)) = []"
proof -
  have missed: "''2024-01-02'' \<notin> set [''2024-01-01'', ''2024-01-03'']" by simp
  have "filter (\<lambda>m. date m = ''2024-01-02'') (daily_metrics world_profile) = []"
    by (simp add: world_profile_def world0_def)
  then show ?thesis
    using missed metrics_runs_only_current_date [OF missed, of world_profile] by simp
qed

section \<open>The broadcast token\<close>

lemma split1_first:
  "sep \<notin> set p \<Longrightarrow> split1 sep (p @ sep # t) = [p, t]"
proof -
  assume fresh: "sep \<notin> set p"
  have "takeWhile (\<lambda>c. c \<noteq> sep) (p @ sep # t) = p"
    using fresh by (induction p) auto
  moreover have "dropWhile (\<lambda>c. c \<noteq> sep) (p @ sep # t) = sep # t"
    using fresh by (induction p) auto
  ultimately show ?thesis
    by (simp add: split1_def)
qed

lemma confirm_callback_data_split:
  "split1 CHR '':'' (confirm_callback_data t) = [''confirm_broadcast'', t]"
proof -
  have "confirm_callback_data t = ''confirm_broadcast'' @ CHR '':'' # t"
    by (simp add: confirm_callback_data_def)
  moreover have "CHR '':'' \<notin> set ''confirm_broadcast''" by simp
  ultimately show ?thesis
    using split1_first by metis
qed

section \<open>Fan-out\<close>

lemma broadcast_loop_counts:
  "broadcast_loop env msg targets (s, f, w) =
     (s + length (filter (\<lambda>u. deliver_ok env (Send u msg)) targets),
      f + length (filter (\<lambda>u. \<not> deliver_ok env (Send u msg)) targets),
      w\<lparr>sent := sent w @
           map (\<lambda>u. Send u msg) (filter (\<lambda>u. deliver_ok env (Send u msg)) targets)\<rparr>)"
proof (induction targets arbitrary: s f w)
  case Nil
  then show ?case by simp
next
  case (Cons u us)
  show ?case
  proof (cases "deliver_ok env (Send u msg)")
    case True
    then show ?thesis
      using Cons.IH [of "s + 1" f "w\<lparr>sent := sent w @ [Send u msg]\<rparr>"]
      by (simp add: send_message_def)
  next
    case False
    then show ?thesis
      using Cons.IH [of s "f + 1" w] by (simp add: send_message_def)
  qed
qed

lemma log_activity_sent: "sent (log_activity env uid act det w) = sent w"
  by (simp add: log_activity_def)

lemma notify_freelancers_sent:
  "sent (notify_freelancers env msg jid targets w) =
     sent w @ map (\<lambda>u. Send u msg) (filter (\<lambda>u. deliver_ok env (Send u msg)) targets)"
proof (induction targets arbitrary: w)
  case Nil
  then show ?case by simp
next
  case (Cons u us)
  show ?case
  proof (cases "deliver_ok env (Send u msg)")
    case True
    then show ?thesis
      using Cons.IH [of "log_activity env u ''job_notification''
          (''Notified about job #'' @ str_nat jid) (w\<lparr>sent := sent w @ [Send u msg]\<rparr>)"]
      by (simp add: send_message_def log_activity_sent)
  next
    case False
    then show ?thesis
      using Cons.IH [of w] by (simp add: send_message_def)
  qed
qed

lemma filter_partition_length:
  "length (filter P xs) + length (filter (\<lambda>x. \<not> P x) xs) = length xs"
  by (induction xs) auto

lemma reported_counts_append:
  "reported_counts (xs @ ys) = reported_counts xs @ reported_counts ys"
  by (induction xs rule: reported_counts.induct) auto

lemma reported_counts_announcements:
  "reported_counts (map (\<lambda>u. Send u (Announcement t)) us) = []"
  by (induction us) auto

text \<open>
  What \<^verbatim>\<open>handle_callback\<close> does with the data of a confirmation button. The status edit
  before the loop and the report after it are outside any \<^verbatim>\<open>try\<close>: when the transport refuses
  one of them, its exception leaves the handler.
\<close>

lemma handle_callback_confirm:
  assumes data: "cb_data call = confirm_callback_data t"
  shows "handle_callback env call w =
    (if \<not> deliver_ok env (Edit (cb_chat_id call) (cb_message_id call) SendingBroadcast)
     then Raised ApiException w
     else
       let us = map user_id (filter (\<lambda>u. is_banned u = 0) (users w));
           K = length (filter (\<lambda>u. \<not> deliver_ok env (Send u (Announcement t))) us);
           w2 = w\<lparr>sent := sent w @
                  Edit (cb_chat_id call) (cb_message_id call) SendingBroadcast #
                  map (\<lambda>u. Send u (Announcement t))
                    (filter (\<lambda>u. deliver_ok env (Send u (Announcement t))) us)\<rparr>;
           rep = BroadcastComplete (length us) (length us - K) K (take 100 t)
       in if deliver_ok env (Send (cb_chat_id call) rep)
          then Returned
                 (log_activity env (cb_from_id call) ''broadcast_sent''
                    (''Sent to '' @ str_nat (length us - K) @ '' users. Message: '' @ take 50 t)
                    (w2\<lparr>sent := sent w2 @ [Send (cb_chat_id call) rep]\<rparr>))
          else Raised ApiException w2)"
proof -
  have decode: "callback_broadcast_text (cb_data call) = Inr t"
    by (simp add: data callback_broadcast_text_def confirm_callback_data_split item_def)
  have tag: "cb_data call \<noteq> ''cancel_broadcast''" "prefix ''confirm_broadcast:'' (cb_data call)"
    by (simp_all add: data confirm_callback_data_def)
  show ?thesis
  proof (cases "deliver_ok env (Edit (cb_chat_id call) (cb_message_id call) SendingBroadcast)")
    case False
    then show ?thesis
      by (simp add: handle_callback_def tag decode edit_message_text_def)
  next
    case True
    define w1 where "w1 = w\<lparr>sent := sent w @
        [Edit (cb_chat_id call) (cb_message_id call) SendingBroadcast]\<rparr>"
    define us where "us = map user_id (filter (\<lambda>u. is_banned u = 0) (users w))"
    define K where "K = length (filter (\<lambda>u. \<not> deliver_ok env (Send u (Announcement t))) us)"
    define w2 where "w2 = w\<lparr>sent := sent w @
        Edit (cb_chat_id call) (cb_message_id call) SendingBroadcast #
        map (\<lambda>u. Send u (Announcement t))
          (filter (\<lambda>u. deliver_ok env (Send u (Announcement t))) us)\<rparr>"
    define rep where "rep = BroadcastComplete (length us) (length us - K) K (take 100 t)"
    define det where "det = ''Sent to '' @ str_nat (length us - K) @ '' users. Message: '' @ take 50 t"
    have ed: "edit_message_text env SendingBroadcast (cb_chat_id call) (cb_message_id call) w = Inr w1"
      using True by (simp add: edit_message_text_def w1_def)
    have u1: "map user_id (filter (\<lambda>u. is_banned u = 0) (users w1)) = us"
      by (simp add: w1_def us_def)
    have count: "length (filter (\<lambda>u. deliver_ok env (Send u (Announcement t))) us) = length us - K"
      using filter_partition_length [of "\<lambda>u. deliver_ok env (Send u (Announcement t))" us]
      by (simp add: K_def)
    have loop: "broadcast_loop env (Announcement t) us (0, 0, w1) = (length us - K, K, w2)"
      by (simp add: broadcast_loop_counts count K_def w2_def w1_def)
    have run: "handle_callback env call w =
        (case send_message env (cb_chat_id call) rep w2 of
           Inl x \<Rightarrow> Raised x w2
         | Inr w3 \<Rightarrow> Returned (log_activity env (cb_from_id call) ''broadcast_sent'' det w3))"
      unfolding handle_callback_def det_def rep_def
      by (simp add: tag decode ed u1 loop Let_def del: broadcast_loop.simps)
    have "handle_callback env call w =
        (if deliver_ok env (Send (cb_chat_id call) rep)
         then Returned (log_activity env (cb_from_id call) ''broadcast_sent'' det
                (w2\<lparr>sent := sent w2 @ [Send (cb_chat_id call) rep]\<rparr>))
         else Raised ApiException w2)"
      by (simp add: run send_message_def)
    then show ?thesis
      using True unfolding det_def rep_def w2_def K_def us_def by (simp add: Let_def)
  qed
qed

text \<open>
  C5, as the code has it. With \<open>N\<close> targets of which \<open>K\<close> cannot be reached, the broadcast
  loop ends with the counters \<open>N - K\<close> and \<open>K\<close> and has delivered to every target that
  can be reached, in order; the notification loop of a new job delivers to the same
  targets and keeps no counters. Both loops are total: a failed delivery ends neither.
  For a confirmed broadcast over the \<open>N\<close> users that are not banned: when the status edit
  and the report can be delivered, the handler returns and has sent one report, with the
  counts \<open>(N, N - K, K)\<close>; when the report cannot be delivered, the handler raises after
  the loop, the deliveries made stay made, and nothing is reported or logged; when the
  status edit cannot be delivered, the handler raises before the loop and nothing is sent.
\<close>

theorem fanout_accounting:
  "broadcast_loop env msg targets (0, 0, w) =
     (length targets - length (filter (\<lambda>u. \<not> deliver_ok env (Send u msg)) targets),
      length (filter (\<lambda>u. \<not> deliver_ok env (Send u msg)) targets),
      w\<lparr>sent := sent w @
           map (\<lambda>u. Send u msg) (filter (\<lambda>u. deliver_ok env (Send u msg)) targets)\<rparr>)
   \<and> sent (notify_freelancers env msg jid targets w) =
       sent w @ map (\<lambda>u. Send u msg) (filter (\<lambda>u. deliver_ok env (Send u msg)) targets)
   \<and> (cb_data call = confirm_callback_data t
        \<and> deliver_ok env (Edit (cb_chat_id call) (cb_message_id call) SendingBroadcast)
      \<longrightarrow>
        (let us = map user_id (filter (\<lambda>u. is_banned u = 0) (users w));
             N = length us;
             K = length (filter (\<lambda>u. \<not> deliver_ok env (Send u (Announcement t))) us);
             delivered =
               Edit (cb_chat_id call) (cb_message_id call) SendingBroadcast #
               map (\<lambda>u. Send u (Announcement t))
                 (filter (\<lambda>u. deliver_ok env (Send u (Announcement t))) us);
             report = Send (cb_chat_id call) (BroadcastComplete N (N - K) K (take 100 t))
         in if deliver_ok env report then
              (\<exists>w'. handle_callback env call w = Returned w'
                 \<and> sent w' = sent w @ delivered @ [report]
                 \<and> reported_counts (drop (length (sent w)) (sent w')) = [(N, N - K, K)])
            else
              handle_callback env call w = Raised ApiException (w\<lparr>sent := sent w @ delivered\<rparr>)
              \<and> reported_counts delivered = []))
   \<and> (cb_data call = confirm_callback_data t
        \<and> \<not> deliver_ok env (Edit (cb_chat_id call) (cb_message_id call) SendingBroadcast)
      \<longrightarrow> handle_callback env call w = Raised ApiException w)"
proof (intro conjI impI)
  have counts: "length (filter (\<lambda>u. deliver_ok env (Send u msg)) targets) =
      length targets - length (filter (\<lambda>u. \<not> deliver_ok env (Send u msg)) targets)"
    using filter_partition_length [of "\<lambda>u. deliver_ok env (Send u msg)" targets] by simp
  show "broadcast_loop env msg targets (0, 0, w) =
     (length targets - length (filter (\<lambda>u. \<not> deliver_ok env (Send u msg)) targets),
      length (filter (\<lambda>u. \<not> deliver_ok env (Send u msg)) targets),
      w\<lparr>sent := sent w @
           map (\<lambda>u. Send u msg) (filter (\<lambda>u. deliver_ok env (Send u msg)) targets)\<rparr>)"
    using broadcast_loop_counts [of env msg targets 0 0 w] counts by simp
  show "sent (notify_freelancers env msg jid targets w) =
       sent w @ map (\<lambda>u. Send u msg) (filter (\<lambda>u. deliver_ok env (Send u msg)) targets)"
    by (rule notify_freelancers_sent)
next
  assume h: "cb_data call = confirm_callback_data t
        \<and> deliver_ok env (Edit (cb_chat_id call) (cb_message_id call) SendingBroadcast)"
  then have data: "cb_data call = confirm_callback_data t"
    and ed: "deliver_ok env (Edit (cb_chat_id call) (cb_message_id call) SendingBroadcast)"
    by blast+
  show "let us = map user_id (filter (\<lambda>u. is_banned u = 0) (users w));
             N = length us;
             K = length (filter (\<lambda>u. \<not> deliver_ok env (Send u (Announcement t))) us);
             delivered =
               Edit (cb_chat_id call) (cb_message_id call) SendingBroadcast #
               map (\<lambda>u. Send u (Announcement t))
                 (filter (\<lambda>u. deliver_ok env (Send u (Announcement t))) us);
             report = Send (cb_chat_id call) (BroadcastComplete N (N - K) K (take 100 t))
         in if deliver_ok env report then
              (\<exists>w'. handle_callback env call w = Returned w'
                 \<and> sent w' = sent w @ delivered @ [report]
                 \<and> reported_counts (drop (length (sent w)) (sent w')) = [(N, N - K, K)])
            else
              handle_callback env call w = Raised ApiException (w\<lparr>sent := sent w @ delivered\<rparr>)
              \<and> reported_counts delivered = []"
    using ed
    by (simp add: handle_callback_confirm [OF data] Let_def log_activity_sent
        reported_counts_append reported_counts_announcements)
next
  assume "cb_data call = confirm_callback_data t
        \<and> \<not> deliver_ok env (Edit (cb_chat_id call) (cb_message_id call) SendingBroadcast)"
  then show "handle_callback env call w = Raised ApiException w"
    by (simp add: handle_callback_confirm)
qed

theorem fanout_accounting_witness:
  "broadcast_loop env_unreachable (Announcement ''hi'') [7, 8] (0, 0, world_two) =
     (1, 1, world_two\<lparr>sent := [Send 8 (Announcement ''hi'')]\<rparr>)
   \<and> reported_counts
       (sent (world_of (handle_callback env_unreachable (confirm_press 1 ''hi'') world_two))) =
     [(2, 1, 1)]
   \<and> handle_callback env_report_fails (confirm_press 1 ''hi'') world_two =
     Raised ApiException
       (world_two\<lparr>sent := [Edit 1 3 SendingBroadcast, Send 7 (Announcement ''hi''),
                           Send 8 (Announcement ''hi'')]\<rparr>)"
proof -
  note acc = fanout_accounting [where env = env_unreachable and w = world_two
      and call = "confirm_press 1 ''hi''" and t = "''hi''" and msg = "Announcement ''hi''"
      and targets = "[7, 8]" and jid = 1]
  note acc' = fanout_accounting [where env = env_report_fails and w = world_two
      and call = "confirm_press 1 ''hi''" and t = "''hi''" and msg = "Announcement ''hi''"
      and targets = "[7, 8]" and jid = 1]
  have loop: "broadcast_loop env_unreachable (Announcement ''hi'') [7, 8] (0, 0, world_two) =
     (1, 1, world_two\<lparr>sent := [Send 8 (Announcement ''hi'')]\<rparr>)"
    using acc by (simp add: inputs)
  have hyp: "cb_data (confirm_press 1 ''hi'') = confirm_callback_data ''hi''
      \<and> deliver_ok env_unreachable
          (Edit (cb_chat_id (confirm_press 1 ''hi'')) (cb_message_id (confirm_press 1 ''hi''))
             SendingBroadcast)"
    by (simp add: inputs)
  have hyp': "cb_data (confirm_press 1 ''hi'') = confirm_callback_data ''hi''
      \<and> deliver_ok env_report_fails
          (Edit (cb_chat_id (confirm_press 1 ''hi'')) (cb_message_id (confirm_press 1 ''hi''))
             SendingBroadcast)"
    by (simp add: inputs)
  from acc hyp have
    "let us = map user_id (filter (\<lambda>u. is_banned u = 0) (users world_two));
         N = length us;
         K = length (filter (\<lambda>u. \<not> deliver_ok env_unreachable (Send u (Announcement ''hi''))) us);
         delivered =
           Edit (cb_chat_id (confirm_press 1 ''hi'')) (cb_message_id (confirm_press 1 ''hi''))
             SendingBroadcast #
           map (\<lambda>u. Send u (Announcement ''hi''))
             (filter (\<lambda>u. deliver_ok env_unreachable (Send u (Announcement ''hi''))) us);
         report = Send (cb_chat_id (confirm_press 1 ''hi''))
                    (BroadcastComplete N (N - K) K (take 100 ''hi''))
     in if deliver_ok env_unreachable report then
          (\<exists>w'. handle_callback env_unreachable (confirm_press 1 ''hi'') world_two = Returned w'
             \<and> sent w' = sent world_two @ delivered @ [report]
             \<and> reported_counts (drop (length (sent world_two)) (sent w')) = [(N, N - K, K)])
        else
          handle_callback env_unreachable (confirm_press 1 ''hi'') world_two =
            Raised ApiException (world_two\<lparr>sent := sent world_two @ delivered\<rparr>)
          \<and> reported_counts delivered = []"
    by blast
  then have ok: "reported_counts
       (sent (world_of (handle_callback env_unreachable (confirm_press 1 ''hi'') world_two))) =
     [(2, 1, 1)]"
    by (auto simp: Let_def inputs)
  from acc' hyp' have
    "let us = map user_id (filter (\<lambda>u. is_banned u = 0) (users world_two));
         N = length us;
         K = length (filter (\<lambda>u. \<not> deliver_ok env_report_fails (Send u (Announcement ''hi''))) us);
         delivered =
           Edit (cb_chat_id (confirm_press 1 ''hi'')) (cb_message_id (confirm_press 1 ''hi''))
             SendingBroadcast #
           map (\<lambda>u. Send u (Announcement ''hi''))
             (filter (\<lambda>u. deliver_ok env_report_fails (Send u (Announcement ''hi''))) us);
         report = Send (cb_chat_id (confirm_press 1 ''hi''))
                    (BroadcastComplete N (N - K) K (take 100 ''hi''))
     in if deliver_ok env_report_fails report then
          (\<exists>w'. handle_callback env_report_fails (confirm_press 1 ''hi'') world_two = Returned w'
             \<and> sent w' = sent world_two @ delivered @ [report]
             \<and> reported_counts (drop (length (sent world_two)) (sent w')) = [(N, N - K, K)])
        else
          handle_callback env_report_fails (confirm_press 1 ''hi'') world_two =
            Raised ApiException (world_two\<lparr>sent := sent world_two @ delivered\<rparr>)
          \<and> reported_counts delivered = []"
    by blast
  then have fails: "handle_callback env_report_fails (confirm_press 1 ''hi'') world_two =
     Raised ApiException
       (world_two\<lparr>sent := [Edit 1 3 SendingBroadcast, Send 7 (Announcement ''hi''),
                           Send 8 (Announcement ''hi'')]\<rparr>)"
    by (simp add: Let_def inputs)
  show ?thesis
    using loop ok fails by simp
qed

text \<open>
  C5 as stated fails for the notification of a new job: freelancer 7 is the only target and
  cannot be reached, so \<open>N = 1\<close> and \<open>K = 1\<close>; the only message that leaves the handler is the
  confirmation to the client, which is sent before the loop starts, and no account of the
  batch is sent to anyone.
\<close>

theorem job_notification_reports_nothing_counterexample:
  "get_freelancers world_budget = [7]
   \<and> \<not> deliver_ok env_unreachable (Send 7 (NewJobAvailable ''Logo design'' ''$50''))
   \<and> sent (world_of (handle_job_budget env_unreachable (text_message 5 ''$50'') world_budget)) =
       [Send 5 (JobPosted ''Logo design'' ''$50'' 1)]
   \<and> (1, 0, 1) \<notin> set (reported_counts
         (sent (world_of (handle_job_budget env_unreachable (text_message 5 ''$50'') world_budget))))"
  by (simp add: handle_job_budget_def Let_def log_activity_def create_job_def
      send_message_def get_freelancers_def inputs)

section \<open>The draft in the token\<close>

text \<open>
  C7. The draft of a broadcast is the text after the first space of the admin's command.
  The confirmation that \<^verbatim>\<open>broadcast_message\<close> sends carries the token built from the
  whole draft, while its preview shows the first 100 characters. The text that
  \<^verbatim>\<open>handle_callback\<close> reads from the token is the whole draft, whatever characters it
  contains: the data is cut at its first colon, which is the one that ends the fixed
  prefix; the data is recognised as a confirmation and is not the cancel token. The
  announcement that goes to every user that can be reached carries this whole draft.
\<close>

theorem broadcast_token_roundtrip:
  "callback_broadcast_text (confirm_callback_data t) = Inr t
   \<and> prefix ''confirm_broadcast:'' (confirm_callback_data t)
   \<and> confirm_callback_data t \<noteq> ''cancel_broadcast''
   \<and> (is_admin env (from_id m) \<and> msg_text m = cmd @ CHR '' '' # t \<and> CHR '' '' \<notin> set cmd
        \<and> 2 \<le> length (split_ws (msg_text m))
      \<longrightarrow> broadcast_message env m w =
            reply env (chat_id m)
              (BroadcastConfirmation (take 100 t) (confirm_callback_data t)) w)
   \<and> (cb_data call = confirm_callback_data t
        \<and> deliver_ok env (Edit (cb_chat_id call) (cb_message_id call) SendingBroadcast)
      \<longrightarrow> (\<exists>rest. sent (world_of (handle_callback env call w)) =
              sent w @
              Edit (cb_chat_id call) (cb_message_id call) SendingBroadcast #
              map (\<lambda>u. Send u (Announcement t))
                (filter (\<lambda>u. deliver_ok env (Send u (Announcement t)))
                   (map user_id (filter (\<lambda>u. is_banned u = 0) (users w)))) @ rest))"
proof (intro conjI impI)
  show "callback_broadcast_text (confirm_callback_data t) = Inr t"
    by (simp add: callback_broadcast_text_def confirm_callback_data_split item_def)
  show "prefix ''confirm_broadcast:'' (confirm_callback_data t)"
    and "confirm_callback_data t \<noteq> ''cancel_broadcast''"
    by (simp_all add: confirm_callback_data_def)
next
  assume h: "is_admin env (from_id m) \<and> msg_text m = cmd @ CHR '' '' # t \<and> CHR '' '' \<notin> set cmd
        \<and> 2 \<le> length (split_ws (msg_text m))"
  then have "msg_text m = cmd @ CHR '' '' # t" "CHR '' '' \<notin> set cmd" "is_admin env (from_id m)"
    by blast+
  then have "split1 CHR '' '' (msg_text m) = [cmd, t]"
    by (simp add: split1_first)
  then have "item (split1 CHR '' '' (msg_text m)) 1 = Inr t"
    by (simp add: item_def)
  moreover have "\<not> length (split_ws (msg_text m)) < 2"
  proof -
    from h have "2 \<le> length (split_ws (msg_text m))" by blast
    then show ?thesis by linarith
  qed
  moreover have "is_admin env (from_id m)"
    using h by blast
  ultimately show "broadcast_message env m w =
      reply env (chat_id m) (BroadcastConfirmation (take 100 t) (confirm_callback_data t)) w"
    unfolding broadcast_message_def by simp
next
  assume h: "cb_data call = confirm_callback_data t
        \<and> deliver_ok env (Edit (cb_chat_id call) (cb_message_id call) SendingBroadcast)"
  show "\<exists>rest. sent (world_of (handle_callback env call w)) =
              sent w @
              Edit (cb_chat_id call) (cb_message_id call) SendingBroadcast #
              map (\<lambda>u. Send u (Announcement t))
                (filter (\<lambda>u. deliver_ok env (Send u (Announcement t)))
                   (map user_id (filter (\<lambda>u. is_banned u = 0) (users w)))) @ rest"
    using h by (simp add: handle_callback_confirm Let_def log_activity_sent)
qed

theorem broadcast_token_roundtrip_witness:
  "is_admin env0 1
   \<and> sent (world_of (broadcast_message env0 (text_message 1 ''/broadcast re: sale'') world_profile)) =
       [Send 1 (BroadcastConfirmation ''re: sale'' ''confirm_broadcast:re: sale'')]
   \<and> confirm_callback_data ''re: sale'' = ''confirm_broadcast:re: sale''
   \<and> sent (world_of (handle_callback env0 (confirm_press 1 ''re: sale'') world_profile)) =
       [Edit 1 3 SendingBroadcast, Send 7 (Announcement ''re: sale''),
        Send 1 (BroadcastComplete 1 1 0 ''re: sale'')]"
proof -
  note rt = broadcast_token_roundtrip [where t = "''re: sale''" and env = env0
      and m = "text_message 1 ''/broadcast re: sale''" and cmd = "''/broadcast''"
      and w = world_profile and call = "confirm_press 1 ''re: sale''"]
  have build: "is_admin env0 (from_id (text_message 1 ''/broadcast re: sale''))
      \<and> msg_text (text_message 1 ''/broadcast re: sale'') = ''/broadcast'' @ CHR '' '' # ''re: sale''
      \<and> CHR '' '' \<notin> set ''/broadcast''
      \<and> 2 \<le> length (split_ws (msg_text (text_message 1 ''/broadcast re: sale'')))"
    by (simp add: is_admin_def split_ws_def is_space_def inputs)
  have "broadcast_message env0 (text_message 1 ''/broadcast re: sale'') world_profile =
      reply env0 (chat_id (text_message 1 ''/broadcast re: sale''))
        (BroadcastConfirmation (take 100 ''re: sale'') (confirm_callback_data ''re: sale''))
        world_profile"
    using rt build by blast
  then have first: "sent (world_of (broadcast_message env0 (text_message 1 ''/broadcast re: sale'')
        world_profile)) = [Send 1 (BroadcastConfirmation ''re: sale'' ''confirm_broadcast:re: sale'')]"
    by (simp add: reply_def send_message_def confirm_callback_data_def inputs)
  have second: "sent (world_of (handle_callback env0 (confirm_press 1 ''re: sale'') world_profile)) =
       [Edit 1 3 SendingBroadcast, Send 7 (Announcement ''re: sale''),
        Send 1 (BroadcastComplete 1 1 0 ''re: sale'')]"
    by (simp add: handle_callback_confirm [of _ "''re: sale''"] Let_def log_activity_sent inputs)
  show ?thesis
    using first second by (simp add: is_admin_def confirm_callback_data_def inputs)
qed

section \<open>The detail of an activity row\<close>

lemma log_activity_appends:
  "user_activity (log_activity env uid act det w) =
     user_activity w @ new_events w (log_activity env uid act det w)"
  by (simp add: log_activity_def new_events_def)

lemma handle_unknown_logs:
  "new_events w (world_of (handle_unknown env m w)) =
     new_events w (log_activity env (from_id m) ''unknown_command'' (take 50 (msg_text m)) w)"
  by (simp add: handle_unknown_def Let_def reply_user_activity new_events_def)

lemma notify_freelancers_activity:
  "\<exists>es. user_activity (notify_freelancers env msg jid targets w) = user_activity w @ es
        \<and> (\<forall>e \<in> set es. action e = ''job_notification'')"
proof (induction targets arbitrary: w)
  case Nil
  then show ?case by simp
next
  case (Cons u us)
  show ?case
  proof (cases "deliver_ok env (Send u msg)")
    case False
    then show ?thesis
      using Cons.IH [of w] by (simp add: send_message_def)
  next
    case True
    define w' where "w' = log_activity env u ''job_notification''
        (''Notified about job #'' @ str_nat jid) (w\<lparr>sent := sent w @ [Send u msg]\<rparr>)"
    obtain es where es: "user_activity (notify_freelancers env msg jid us w') = user_activity w' @ es"
        "\<forall>e \<in> set es. action e = ''job_notification''"
      using Cons.IH [of w'] by blast
    have "\<exists>es'. user_activity w' = user_activity w @ es' \<and> (\<forall>e \<in> set es'. action e = ''job_notification'')"
      by (simp add: w'_def log_activity_def)
    then obtain es' where es': "user_activity w' = user_activity w @ es'"
        "\<forall>e \<in> set es'. action e = ''job_notification''"
      by blast
    have "user_activity (notify_freelancers env msg jid (u # us) w) = user_activity w @ (es' @ es)"
      using True es(1) es'(1) by (simp add: send_message_def w'_def)
    moreover have "\<forall>e \<in> set (es' @ es). action e = ''job_notification''"
      using es(2) es'(2) by auto
    ultimately show ?thesis by blast
  qed
qed

lemma handle_job_budget_events:
  assumes "e \<in> set (new_events w (world_of (handle_job_budget env m w)))"
    and "action e = ''post_job''"
  shows "\<exists>d t. user_state w (from_id m) = Some d \<and> d ''title'' = Some t
           \<and> details e = ''Job: '' @ take 30 t @ ''...''"
proof (cases "user_state w (from_id m)")
  case None
  then show ?thesis
    using assms(1) by (simp add: handle_job_budget_def Let_def new_events_def)
next
  case (Some d)
  show ?thesis
  proof (cases "d ''title''")
    case None
    then show ?thesis
      using assms(1) Some by (simp add: handle_job_budget_def Let_def new_events_def)
  next
    case title: (Some t)
    define w1 where "w1 = log_activity env (from_id m) ''post_job'' (''Job: '' @ take 30 t @ ''...'') w"
    note w1_fold = w1_def [symmetric, simplified]
    have first: "\<forall>e \<in> set (new_events w w1). details e = ''Job: '' @ take 30 t @ ''...''"
      by (simp add: w1_def new_events_log_activity)
    have w1: "user_activity w1 = user_activity w @ new_events w w1"
      unfolding w1_def by (rule log_activity_appends)
    have "\<exists>es. new_events w (world_of (handle_job_budget env m w)) = new_events w w1 @ es
        \<and> (\<forall>e \<in> set es. action e = ''job_notification'')"
    proof (cases "d ''description''")
      case None
      then show ?thesis
        using Some title by (simp add: handle_job_budget_def Let_def w1_fold)
    next
      case descr: (Some dsc)
      define w3 where "w3 = (snd (create_job env (from_id m) t dsc (msg_text m) w1))
          \<lparr>user_state := (user_state (snd (create_job env (from_id m) t dsc (msg_text m) w1)))(from_id m := None)\<rparr>"
      have w3: "user_activity w3 = user_activity w1"
        by (simp add: w3_def create_job_def)
      show ?thesis
      proof (cases "deliver_ok env (Send (chat_id m) (JobPosted t (msg_text m) (jobs_seq w1 + 1)))")
        case False
        then have "world_of (handle_job_budget env m w) = w3"
          using Some title descr
          by (simp add: handle_job_budget_def Let_def w1_fold create_job_def
              send_message_def w3_def)
        then show ?thesis
          using w3 by (simp add: new_events_def)
      next
        case True
        define w4 where "w4 = w3\<lparr>sent := sent w3 @ [Send (chat_id m) (JobPosted t (msg_text m) (jobs_seq w1 + 1))]\<rparr>"
        have run: "world_of (handle_job_budget env m w) =
            notify_freelancers env (NewJobAvailable t (msg_text m)) (jobs_seq w1 + 1)
              (get_freelancers w4) w4"
          using Some title descr True
          by (simp add: handle_job_budget_def Let_def w1_fold create_job_def
              send_message_def w3_def w4_def)
        obtain es where es: "user_activity (notify_freelancers env (NewJobAvailable t (msg_text m))
              (jobs_seq w1 + 1) (get_freelancers w4) w4) = user_activity w4 @ es"
            "\<forall>e \<in> set es. action e = ''job_notification''"
          using notify_freelancers_activity by blast
        have "user_activity w4 = user_activity w @ new_events w w1"
          using w1 w3 by (simp add: w4_def)
        then have "new_events w (world_of (handle_job_budget env m w)) = new_events w w1 @ es"
          using es(1) run by (simp add: new_events_def)
        then show ?thesis
          using es(2) by blast
      qed
    qed
    then obtain es where es: "new_events w (world_of (handle_job_budget env m w)) = new_events w w1 @ es"
        "\<forall>e \<in> set es. action e = ''job_notification''"
      by blast
    have "e \<notin> set es"
      using es(2) assms(2) by auto
    then have "e \<in> set (new_events w w1)"
      using assms(1) es(1) by simp
    then show ?thesis
      using first Some title by simp
  qed
qed


lemma handle_callback_events:
  assumes "e \<in> set (new_events w (world_of (handle_callback env call w)))"
  shows "\<exists>n t. callback_broadcast_text (cb_data call) = Inr t
           \<and> details e = ''Sent to '' @ str_nat n @ '' users. Message: '' @ take 50 t"
proof -
  let ?r = "world_of (handle_callback env call w)"
  have changed: "user_activity ?r \<noteq> user_activity w"
    using assms by (auto simp: new_events_def)
  show ?thesis
  proof (cases "cb_data call = ''cancel_broadcast''")
    case True
    then have "user_activity ?r = user_activity w"
      by (simp add: handle_callback_def edit_message_text_def)
    with changed show ?thesis by simp
  next
    case no_cancel: False
    show ?thesis
    proof (cases "prefix ''confirm_broadcast:'' (cb_data call)")
      case False
      with no_cancel have "user_activity ?r = user_activity w"
        by (simp add: handle_callback_def)
      with changed show ?thesis by simp
    next
      case confirm: True
      show ?thesis
      proof (cases "callback_broadcast_text (cb_data call)")
        case (Inl x)
        with no_cancel confirm have "user_activity ?r = user_activity w"
          by (simp add: handle_callback_def)
        with changed show ?thesis by simp
      next
        case (Inr t)
        show ?thesis
        proof (cases "deliver_ok env (Edit (cb_chat_id call) (cb_message_id call) SendingBroadcast)")
          case False
          with no_cancel confirm Inr have "user_activity ?r = user_activity w"
            by (simp add: handle_callback_def edit_message_text_def)
          with changed show ?thesis by simp
        next
          case True
          define w1 where "w1 = w\<lparr>sent := sent w @
              [Edit (cb_chat_id call) (cb_message_id call) SendingBroadcast]\<rparr>"
          define us where "us = map user_id (filter (\<lambda>u. is_banned u = 0) (users w1))"
          define s where "s = length (filter (\<lambda>u. deliver_ok env (Send u (Announcement t))) us)"
          define f where "f = length (filter (\<lambda>u. \<not> deliver_ok env (Send u (Announcement t))) us)"
          define w2 where "w2 = w1\<lparr>sent := sent w1 @ map (\<lambda>u. Send u (Announcement t))
              (filter (\<lambda>u. deliver_ok env (Send u (Announcement t))) us)\<rparr>"
          define rep where "rep = BroadcastComplete (length us) s f (take 100 t)"
          define det where "det = ''Sent to '' @ str_nat s @ '' users. Message: '' @ take 50 t"
          have ed: "edit_message_text env SendingBroadcast (cb_chat_id call) (cb_message_id call) w = Inr w1"
            using True by (simp add: edit_message_text_def w1_def)
          have loop: "broadcast_loop env (Announcement t) us (0, 0, w1) = (s, f, w2)"
            by (simp add: broadcast_loop_counts s_def f_def w2_def)
          have same: "user_activity w2 = user_activity w"
            by (simp add: w2_def w1_def)
          have run: "handle_callback env call w =
              (case send_message env (cb_chat_id call) rep w2 of
                 Inl x \<Rightarrow> Raised x w2
               | Inr w3 \<Rightarrow> Returned (log_activity env (cb_from_id call) ''broadcast_sent'' det w3))"
            unfolding handle_callback_def det_def rep_def
            by (simp add: no_cancel confirm Inr ed us_def [symmetric] loop Let_def
                del: broadcast_loop.simps)
          show ?thesis
          proof (cases "deliver_ok env (Send (cb_chat_id call) rep)")
            case False
            then have "user_activity ?r = user_activity w"
              by (simp add: run send_message_def same)
            with changed show ?thesis by simp
          next
            case True
            then have "?r = log_activity env (cb_from_id call) ''broadcast_sent'' det
                (w2\<lparr>sent := sent w2 @ [Send (cb_chat_id call) rep]\<rparr>)"
              by (simp add: run send_message_def)
            then have "details e = det"
              using assms same by (simp add: new_events_def log_activity_def split: if_splits)
            then show ?thesis
              using Inr unfolding det_def by blast
          qed
        qed
      qed
    qed
  qed
qed

text \<open>
  C8, as the code has it. In the rows that the skills step, the fallback, the budget step
  and a confirmed broadcast append, the text of the user enters the detail only as a prefix
  of at most 50 characters (30 for the job title), after the fixed label of the step; with
  the label the detail of the skills step has up to 58 characters.
\<close>

theorem detail_embeds_bounded_prefix:
  "(\<forall>e \<in> set (new_events w (world_of (handle_skills env m w))).
      details e = ''Skills: '' @ take 50 (msg_text m) \<and> length (details e) \<le> 58)
   \<and> (\<forall>e \<in> set (new_events w (world_of (handle_unknown env m w))).
      details e = take 50 (msg_text m) \<and> length (details e) \<le> 50)
   \<and> (\<forall>e \<in> set (new_events w (world_of (handle_job_budget env m w))).
      action e = ''post_job'' \<longrightarrow>
        (\<exists>d t. user_state w (from_id m) = Some d \<and> d ''title'' = Some t
           \<and> details e = ''Job: '' @ take 30 t @ ''...'')
        \<and> length (details e) \<le> 38)
   \<and> (\<forall>e \<in> set (new_events w (world_of (handle_callback env call w))).
      \<exists>n t. callback_broadcast_text (cb_data call) = Inr t
        \<and> details e = ''Sent to '' @ str_nat n @ '' users. Message: '' @ take 50 t)"
proof (intro conjI ballI impI)
  fix e
  assume "e \<in> set (new_events w (world_of (handle_skills env m w)))"
  then have "details e = ''Skills: '' @ take 50 (msg_text m)"
    by (simp add: handle_skills_logs new_events_log_activity split: if_splits)
  then show "details e = ''Skills: '' @ take 50 (msg_text m)" "length (details e) \<le> 58"
    by simp_all
next
  fix e
  assume "e \<in> set (new_events w (world_of (handle_unknown env m w)))"
  then have "details e = take 50 (msg_text m)"
    by (simp add: handle_unknown_logs new_events_log_activity split: if_splits)
  then show "details e = take 50 (msg_text m)" "length (details e) \<le> 50"
    by simp_all
next
  fix e
  assume e: "e \<in> set (new_events w (world_of (handle_job_budget env m w)))"
    "action e = ''post_job''"
  then obtain d t where dt: "user_state w (from_id m) = Some d" "d ''title'' = Some t"
      "details e = ''Job: '' @ take 30 t @ ''...''"
    using handle_job_budget_events by blast
  then show "\<exists>d t. user_state w (from_id m) = Some d \<and> d ''title'' = Some t
           \<and> details e = ''Job: '' @ take 30 t @ ''...''"
    by blast
  show "length (details e) \<le> 38"
    using dt(3) by simp
next
  fix e
  assume "e \<in> set (new_events w (world_of (handle_callback env call w)))"
  then show "\<exists>n t. callback_broadcast_text (cb_data call) = Inr t
        \<and> details e = ''Sent to '' @ str_nat n @ '' users. Message: '' @ take 50 t"
    by (rule handle_callback_events)
qed

theorem detail_embeds_bounded_prefix_witness:
  "map details (new_events world_profile
      (world_of (handle_skills env0 (text_message 7 long_text) world_profile))) =
     [''Skills: '' @ take 50 long_text]
   \<and> map details (new_events world_budget
      (world_of (handle_job_budget env0 (text_message 5 ''$50'') world_budget))) =
     [''Job: Logo design...'', ''Notified about job #1'']"
proof -
  have skills: "new_events world_profile
      (world_of (handle_skills env0 (text_message 7 long_text) world_profile)) =
      [\<lparr>activity_id = 1, actor = 7, action = ''set_skills'',
        details = ''Skills: '' @ take 50 (msg_text (text_message 7 long_text)),
        logged_at = ''2024-01-02 10:00:00''\<rparr>]"
    by (simp add: handle_skills_logs new_events_log_activity inputs)
  have budget: "new_events world_budget
      (world_of (handle_job_budget env0 (text_message 5 ''$50'') world_budget)) =
      [\<lparr>activity_id = 1, actor = 5, action = ''post_job'', details = ''Job: Logo design...'',
        logged_at = ''2024-01-02 10:00:00''\<rparr>,
       \<lparr>activity_id = 2, actor = 7, action = ''job_notification'',
        details = ''Notified about job #1'', logged_at = ''2024-01-02 10:00:00''\<rparr>]"
    by (simp add: handle_job_budget_def Let_def log_activity_def create_job_def
        send_message_def get_freelancers_def new_events_def str_nat.simps inputs)
  show ?thesis
    using detail_embeds_bounded_prefix [of world_profile env0 "text_message 7 long_text"]
      skills budget
    by (simp add: inputs)
qed

text \<open>
  C8 as stated fails: skills of 60 characters give a detail of 58 characters, the label
  \<open>Skills: \<close> and the first 50 characters.
\<close>

theorem detail_at_most_50_counterexample:
  "\<not> (\<forall>e \<in> set (new_events world_profile
          (world_of (handle_skills env0 (text_message 7 long_text) world_profile))).
        length (details e) \<le> 50)"
  by (simp add: handle_skills_logs new_events_log_activity long_text_def inputs)

end
